theory Spec2Isabelle
  imports Complex_Main "HOL-Library.Log_Nat"
begin

chapter \<open>The wallet and contract interaction layer of web3-ethersjs\<close>

text \<open>
  The hooks \<open>useWeb3\<close>, \<open>useERC20\<close>, \<open>useVault\<close> and the component \<open>App\<close> are
  asynchronous TypeScript functions over React state cells. Each function is embedded as a
  function from the state it reads (a record of the cells) and the answers of the wallet
  provider and of the contracts (a record of outcomes, each \<open>js_error + 'a\<close>) to its
  result, the state it leaves and the list of calls it issued, in the order of issue.
\<close>

section \<open>JavaScript values\<close>

text \<open>
  A thrown value: an \<open>Error\<close> object with its message and the optional \<open>code\<close> property
  that wallet providers (numbers such as 4902) and ethers (strings such as
  \<open>ACTION_REJECTED\<close>) attach to it.
\<close>

datatype err_code = NumCode int | StrCode string

datatype js_error = JsError (code: "err_code option") (message: string)

definition new_Error :: "string \<Rightarrow> js_error" where
  "new_Error msg = JsError None msg"

text \<open>Truthiness of a value of type \<open>string | null\<close>: \<open>null\<close> and the empty string are falsy.\<close>

definition truthy :: "string option \<Rightarrow> bool" where
  "truthy v = (case v of None \<Rightarrow> False | Some str \<Rightarrow> str \<noteq> [])"

text \<open>
  \<open>v || d\<close> for \<open>v\<close> of type \<open>number | undefined\<close>: the default is taken when \<open>v\<close> is
  \<open>undefined\<close> or \<open>0\<close> (the numbers here are never \<open>NaN\<close>).
\<close>

definition or_number :: "nat option \<Rightarrow> nat \<Rightarrow> nat" where
  "or_number v d = (case v of None \<Rightarrow> d | Some n \<Rightarrow> if n = 0 then d else n)"

text \<open>\<open>xs[0]\<close>, with \<open>undefined\<close> (here \<open>None\<close>) for the empty array.\<close>

definition first_element :: "'a list \<Rightarrow> 'a option" where
  "first_element xs = (case xs of [] \<Rightarrow> None | x # rest \<Rightarrow> Some x)"

text \<open>\<open>n.toString(radix)\<close> of a non-negative integer, for a radix from 2 to 16.\<close>

function toString_radix :: "nat \<Rightarrow> nat \<Rightarrow> string" where
  "toString_radix radix n =
     (if radix < 2 \<or> n < radix then [''0123456789abcdef'' ! n]
      else toString_radix radix (n div radix) @ [''0123456789abcdef'' ! (n mod radix)])"
  by pat_completeness auto
termination
  by (relation "measure (\<lambda>(radix, n). n)") auto

declare toString_radix.simps [simp del]

text \<open>Decimal digits, and \<open>BigInt\<close> of a string of decimal digits.\<close>

definition isDigit :: "char \<Rightarrow> bool" where
  "isDigit c = (c \<in> set ''0123456789'')"

definition digit_value :: "char \<Rightarrow> nat" where
  "digit_value c = of_char c - 48"

definition BigInt_digits :: "string \<Rightarrow> nat" where
  "BigInt_digits ds = foldl (\<lambda>acc c. 10 * acc + digit_value c) 0 ds"

section \<open>JavaScript numbers\<close>

text \<open>
  A Number is an IEEE 754 binary64 value; the finite, non-negative ones that occur here
  are embedded as the reals they denote. \<open>to_double\<close> is the rounding every conversion
  to Number performs: to the nearest value \<open>m * 2^k\<close> with \<open>m < 2^53\<close> and
  \<open>k \<ge> -1074\<close>, ties to the even \<open>m\<close>. (Values of \<open>2^1024\<close> and more, which round to
  \<open>Infinity\<close>, are outside the embedding; a 256-bit balance stays far below.)
\<close>

definition scale2 :: "int \<Rightarrow> real" where
  "scale2 k = (if 0 \<le> k then 2 ^ nat k else 1 / 2 ^ nat (- k))"

definition floor_log2 :: "real \<Rightarrow> int" where
  "floor_log2 x = (if 1 \<le> x then bitlen \<lfloor>x\<rfloor> - 1 else - bitlen (\<lceil>1 / x\<rceil> - 1))"

definition round_half_even :: "real \<Rightarrow> int" where
  "round_half_even x =
     (let f = \<lfloor>x\<rfloor>; r = x - of_int f
      in if r < 1 / 2 then f else if 1 / 2 < r then f + 1 else if even f then f else f + 1)"

definition to_double :: "real \<Rightarrow> real" where
  "to_double x =
     (if x = 0 then 0
      else (let k = max (floor_log2 x - 52) (- 1074)
            in of_int (round_half_even (x / scale2 k)) * scale2 k))"

text \<open>
  \<open>parseFloat\<close> on the strings met here, digits with at most one point: the Number
  nearest to the decimal value of the longest such prefix, \<open>NaN\<close> (\<open>None\<close>) when there is
  no digit. Signs, exponents and white space do not occur and are not covered. The
  decimal value is rounded correctly whatever its length, as the engines do (ECMA-262
  requires it up to 20 significant digits).
\<close>

definition parseFloat :: "string \<Rightarrow> real option" where
  "parseFloat str =
     (let whole = takeWhile isDigit str;
          rest = dropWhile isDigit str;
          fraction = (if take 1 rest = ''.'' then takeWhile isDigit (drop 1 rest) else [])
      in if whole = [] \<and> fraction = [] then None
         else Some (to_double
           (of_nat (BigInt_digits (whole @ fraction)) / 10 ^ length fraction)))"

text \<open>
  \<open>Number.prototype.toFixed(f)\<close> for \<open>0 \<le> x < 10^21\<close>: with \<open>n\<close> the integer nearest to
  \<open>x * 10^f\<close> (the larger one on a tie), the digits of \<open>n\<close>, padded with zeros to more
  than \<open>f\<close> digits, with the point before the last \<open>f\<close>.
\<close>

definition pad_left :: "nat \<Rightarrow> string \<Rightarrow> string" where
  "pad_left n digits = replicate (n - length digits) CHR ''0'' @ digits"

definition strip_trailing_zeros :: "string \<Rightarrow> string" where
  "strip_trailing_zeros digits = rev (dropWhile (\<lambda>c. c = CHR ''0'') (rev digits))"

definition toFixed :: "real \<Rightarrow> nat \<Rightarrow> string" where
  "toFixed x f =
     (let n = nat \<lfloor>x * 10 ^ f + 1 / 2\<rfloor>;
          m = pad_left (f + 1) (toString_radix 10 n)
      in if f = 0 then m
         else take (length m - f) m @ ''.'' @ drop (length m - f) m)"

text \<open>
  The shortest decimal of a Number \<open>x > 0\<close>, the one \<open>String(x)\<close> writes (ECMA-262,
  \<open>Number::toString\<close>): among the decimals \<open>s * 10^(n - k)\<close> that convert back to \<open>x\<close>,
  one with the fewest digits \<open>k\<close>, and among these the one nearest to \<open>x\<close> (the even \<open>s\<close>
  on a tie). \<open>decimal_exponent x\<close> is the \<open>n\<close> with \<open>10^(n - 1) \<le> x < 10^n\<close>. With \<open>k\<close>
  digits the two candidates are the multiples of \<open>10^(n - k)\<close> next to \<open>x\<close>, below and
  above; 17 digits are enough for every Number.
\<close>

definition scale10 :: "int \<Rightarrow> real" where
  "scale10 e = (if 0 \<le> e then 10 ^ nat e else 1 / 10 ^ nat (- e))"

definition decimal_exponent :: "real \<Rightarrow> int" where
  "decimal_exponent x =
     (if 1 \<le> x then int (length (toString_radix 10 (nat \<lfloor>x\<rfloor>)))
      else 1 - int (length (toString_radix 10 (nat (\<lceil>1 / x\<rceil> - 1)))))"

function shortest_decimal_from :: "nat \<Rightarrow> int \<Rightarrow> real \<Rightarrow> real" where
  "shortest_decimal_from k n x =
     (if 17 < k then x
      else (let unit = scale10 (n - int k);
                s = \<lfloor>x / unit\<rfloor>;
                below = of_int s * unit;
                above = of_int (s + 1) * unit
            in if to_double below = x \<and> to_double above = x
               then (if x - below < above - x then below
                     else if above - x < x - below then above
                     else if even s then below else above)
               else if to_double below = x then below
               else if to_double above = x then above
               else shortest_decimal_from (k + 1) n x))"
  by pat_completeness auto
termination
  by (relation "measure (\<lambda>(k, n, x). 18 - k)") auto

declare shortest_decimal_from.simps [simp del]

definition shortest_decimal :: "real \<Rightarrow> real" where
  "shortest_decimal x = shortest_decimal_from 1 (decimal_exponent x) x"

text \<open>
  \<open>x.toLocaleString("en-US", {maximumFractionDigits})\<close> for a Number \<open>x \<ge> 0\<close>, as the
  engine's formatter (ICU) renders it: the formatter starts from the shortest decimal of
  \<open>x\<close>, not from the exact value of \<open>x\<close>, and rounds that decimal to the maximum number
  of fraction digits, a half away from zero; the trailing zeros of the fraction are
  removed (the minimum number of fraction digits is 0), the point is dropped when no
  fraction digit is left, and the integer digits are grouped in threes by commas. So
  \<open>(1.005).toLocaleString("en-US", {maximumFractionDigits: 2})\<close> is "1.01", where
  \<open>(1.005).toFixed(2)\<close>, which rounds the exact value, is "1.00".
\<close>

fun group_reversed :: "string \<Rightarrow> string" where
  "group_reversed (a # b # c # d # rest) = a # b # c # CHR '','' # group_reversed (d # rest)"
| "group_reversed digits = digits"

definition group_thousands :: "string \<Rightarrow> string" where
  "group_thousands digits = rev (group_reversed (rev digits))"

definition toLocaleString_en_US :: "real \<Rightarrow> nat \<Rightarrow> string" where
  "toLocaleString_en_US x maximumFractionDigits =
     (let n = nat \<lfloor>shortest_decimal x * 10 ^ maximumFractionDigits + 1 / 2\<rfloor>;
          m = pad_left (maximumFractionDigits + 1) (toString_radix 10 n);
          integer = take (length m - maximumFractionDigits) m;
          fraction = strip_trailing_zeros (drop (length m - maximumFractionDigits) m)
      in group_thousands integer @ (if fraction = [] then [] else ''.'' @ fraction))"

text \<open>The number of characters after the decimal point of a rendered number.\<close>

definition fraction_digits :: "string \<Rightarrow> nat" where
  "fraction_digits str = length (drop 1 (dropWhile (\<lambda>c. c \<noteq> CHR ''.'') str))"

section \<open>Asynchronous functions over state cells\<close>

text \<open>
  An action takes the state cells and gives the outcome (\<open>Inl\<close> a thrown error), the cells
  afterwards and the calls issued. \<open>await\<close> issues one call and suspends until its outcome;
  \<open>settled\<close> is a computation that issues no call and may throw; \<open>set_cells\<close> is a
  state update; \<open>then_do\<close> is sequencing, which stops at the first throw; \<open>try_catch\<close>
  and \<open>try_finally\<close> are the statements of the same names.
\<close>

type_synonym ('s, 'c, 'a) action = "'s \<Rightarrow> (js_error + 'a) \<times> 's \<times> 'c list"

definition return :: "'a \<Rightarrow> ('s, 'c, 'a) action" where
  "return v = (\<lambda>s. (Inr v, s, []))"

definition throw :: "js_error \<Rightarrow> ('s, 'c, 'a) action" where
  "throw err = (\<lambda>s. (Inl err, s, []))"

definition settled :: "js_error + 'a \<Rightarrow> ('s, 'c, 'a) action" where
  "settled outcome = (\<lambda>s. (outcome, s, []))"

definition await :: "'c \<Rightarrow> js_error + 'a \<Rightarrow> ('s, 'c, 'a) action" where
  "await c outcome = (\<lambda>s. (outcome, s, [c]))"

definition set_cells :: "('s \<Rightarrow> 's) \<Rightarrow> ('s, 'c, unit) action" where
  "set_cells f = (\<lambda>s. (Inr (), f s, []))"

definition then_do :: "('s, 'c, 'a) action \<Rightarrow> ('a \<Rightarrow> ('s, 'c, 'b) action) \<Rightarrow> ('s, 'c, 'b) action" where
  "then_do m f = (\<lambda>s.
     case m s of
       (Inl err, s1, cs) \<Rightarrow> (Inl err, s1, cs)
     | (Inr v, s1, cs) \<Rightarrow> (case f v s1 of (r, s2, cs') \<Rightarrow> (r, s2, cs @ cs')))"

definition try_catch :: "('s, 'c, 'a) action \<Rightarrow> (js_error \<Rightarrow> ('s, 'c, 'a) action) \<Rightarrow> ('s, 'c, 'a) action" where
  "try_catch m handler = (\<lambda>s.
     case m s of
       (Inl err, s1, cs) \<Rightarrow> (case handler err s1 of (r, s2, cs') \<Rightarrow> (r, s2, cs @ cs'))
     | (Inr v, s1, cs) \<Rightarrow> (Inr v, s1, cs))"

definition try_finally :: "('s, 'c, 'a) action \<Rightarrow> ('s \<Rightarrow> 's) \<Rightarrow> ('s, 'c, 'a) action" where
  "try_finally m f = (\<lambda>s. case m s of (r, s1, cs) \<Rightarrow> (r, f s1, cs))"

text \<open>
  \<open>Promise.all\<close> over asynchronous calls that have all been started: every one issues its
  calls, in the order of the array; the result is the array of their values, or a
  rejection when one of them rejects. Which rejection it is depends on the order in
  which the calls settle; the one caller below, \<open>getAllBalances\<close>, catches the rejection
  and discards it, so the first in the array stands for it here.
\<close>

fun Promise_all :: "('s, 'c, 'a) action list \<Rightarrow> ('s, 'c, 'a list) action" where
  "Promise_all [] = return []"
| "Promise_all (m # ms) = (\<lambda>s.
     case m s of (r, s1, cs) \<Rightarrow>
       (case Promise_all ms s1 of (rs, s2, cs') \<Rightarrow>
          ((case r of
              Inl err \<Rightarrow> Inl err
            | Inr v \<Rightarrow> (case rs of Inl err \<Rightarrow> Inl err | Inr vs \<Rightarrow> Inr (v # vs))),
           s2, cs @ cs')))"

section \<open>ethers: the objects, parseUnits and formatUnits\<close>

text \<open>The handles the hooks keep: a provider, a signer, a contract bound to an address.\<close>

datatype BrowserProvider = BrowserProvider

text \<open>
  \<open>provider.send(method, params)\<close> of a \<open>BrowserProvider\<close> passes the request to the
  injected wallet. When the wallet refuses, the promise is not rejected with the wallet's
  error object: ethers makes an error of its own from it (\<open>getRpcError\<close>), whose \<open>code\<close>
  is one of the strings of ethers: \<open>ACTION_REJECTED\<close>, "user rejected action", for the
  wallet's code 4001 (the user declined); \<open>UNKNOWN_ERROR\<close>, "could not coalesce error",
  for a refusal that ethers does not recognise, such as the wallet's code 4902. The
  wallet's error object, with its numeric code, is kept under the property \<open>error\<close> of
  the new error, which no code of this repository reads.

  The message of the new error is given by its first words (ethers appends the request
  and the wallet's error to it). ethers recognises some refusals by the text of the
  wallet's message as well (a message saying that the user denied, or that the method
  does not exist); the wallet messages here are taken not to be of these, so the
  wallet's code decides. The code of the new error is a string in every case.
\<close>

definition getRpcError :: "js_error \<Rightarrow> js_error" where
  "getRpcError walletError =
     (if code walletError = Some (NumCode 4001)
      then JsError (Some (StrCode ''ACTION_REJECTED'')) ''user rejected action''
      else JsError (Some (StrCode ''UNKNOWN_ERROR'')) ''could not coalesce error'')"

definition BrowserProvider_send :: "js_error + 'a \<Rightarrow> js_error + 'a" where
  "BrowserProvider_send answer =
     (case answer of
        Inl walletError \<Rightarrow> Inl (getRpcError walletError)
      | Inr result \<Rightarrow> Inr result)"

text \<open>A signer is bound to the address it was created for.\<close>

datatype JsonRpcSigner = JsonRpcSigner (signer_address: string)

datatype Contract = Contract (contract_address: string)

text \<open>
  What a write call resolves to: the transaction response, with its hash and with what
  awaiting its inclusion (\<open>tx.wait()\<close>) will give: the receipt (or \<open>null\<close>), or a throw
  when the transaction reverted.
\<close>

datatype TransactionReceipt = TransactionReceipt (receipt_hash: string) (status: "nat option")

datatype TransactionResponse =
  TransactionResponse (hash: string) (wait: "js_error + TransactionReceipt option")

text \<open>
  \<open>parseUnits(value, decimals)\<close> and \<open>formatUnits(value, decimals)\<close> are functions of the
  ethers library (version 6), which the hooks import; they are not code of this
  repository. The definitions follow the library's \<open>FixedNumber\<close>.

  \<open>parseUnits\<close> (\<open>FixedNumber.fromString\<close>): the string must match
  \<open>^(-?)([0-9]*)\.?([0-9]*)$\<close> with at least one digit; a format of more than 80
  decimals is refused; the fraction is padded with zeros to \<open>decimals\<close> digits, and digits
  beyond \<open>decimals\<close> must all be zero; the result is the integer written by the whole part
  followed by the first \<open>decimals\<close> fraction digits.
\<close>

definition parseUnits :: "string \<Rightarrow> nat \<Rightarrow> js_error + int" where
  "parseUnits v unit_decimals =
     (let negative = (take 1 v = ''-'');
          unsigned = (if negative then drop 1 v else v);
          whole = takeWhile isDigit unsigned;
          rest = dropWhile isDigit unsigned;
          decimal = (if take 1 rest = ''.'' then drop 1 rest else rest)
      in if list_all isDigit decimal \<and> 0 < length whole + length decimal
         then
           if unit_decimals \<le> 80
           then
             (let padded = decimal @ replicate (unit_decimals - length decimal) CHR ''0''
              in if list_all (\<lambda>c. c = CHR ''0'') (drop unit_decimals padded)
                 then
                   (let magnitude = BigInt_digits (whole @ take unit_decimals padded)
                    in Inr (if negative then - int magnitude else int magnitude))
                 else Inl (JsError (Some (StrCode ''NUMERIC_FAULT'')) ''too many decimals for format''))
           else Inl (JsError (Some (StrCode ''INVALID_ARGUMENT''))
                       ''invalid FixedNumber decimals (too large)'')
         else Inl (JsError (Some (StrCode ''INVALID_ARGUMENT'')) ''invalid FixedNumber string value''))"

text \<open>
  \<open>formatUnits\<close> (\<open>FixedNumber.fromValue(...).toString()\<close>) of a non-negative value: a
  format of more than 80 decimals and a value of \<open>2^511\<close> or more are refused; with no
  decimals the result is the digits of the value; otherwise the digits are padded with
  zeros to more than \<open>decimals\<close> digits, the point is put before the last \<open>decimals\<close>, and
  leading zeros of the whole part and trailing zeros of the fraction are removed, one
  digit being kept on each side.
\<close>

definition formatUnits :: "nat \<Rightarrow> nat \<Rightarrow> js_error + string" where
  "formatUnits v unit_decimals =
     (if 80 < unit_decimals
      then Inl (JsError (Some (StrCode ''INVALID_ARGUMENT''))
                  ''invalid FixedNumber decimals (too large)'')
      else if 2 ^ 511 \<le> v
      then Inl (JsError (Some (StrCode ''NUMERIC_FAULT'')) ''overflow'')
      else if unit_decimals = 0 then Inr (toString_radix 10 v)
      else
        (let padded = pad_left (unit_decimals + 1) (toString_radix 10 v);
             whole = take (length padded - unit_decimals) padded;
             fraction = drop (length padded - unit_decimals) padded;
             whole_trimmed = dropWhile (\<lambda>c. c = CHR ''0'') whole;
             fraction_trimmed = strip_trailing_zeros fraction
         in Inr ((if whole_trimmed = [] then ''0'' else whole_trimmed) @ ''.'' @
                 (if fraction_trimmed = [] then ''0'' else fraction_trimmed))))"

section \<open>App: the transfer with gas estimation\<close>

record TokenData =
  name :: string
  symbol :: string
  balance :: string
  decimals :: nat

text \<open>The cells of the component \<open>App\<close>.\<close>

record AppState =
  account :: "string option"
  tokenData :: "TokenData option"
  loading :: bool
  error :: "string option"
  txHash :: "string option"

text \<open>
  What \<open>handleTransfer\<close> does towards the wallet and the page: it asks for the signer,
  estimates the gas of \<open>transfer(to, amount)\<close>, submits \<open>transfer(to, amount)\<close> with a gas
  limit, waits for the inclusion of a transaction, shows an alert, and starts
  \<open>fetchContractData\<close> for an account (which it does not await).
\<close>

datatype app_call =
    App_getSigner
  | App_estimateGas string int
  | App_transfer string int nat
  | App_wait string
  | App_alert string
  | App_fetchContractData string

text \<open>
  What the page and the wallet answer: whether \<open>window.ethereum\<close> exists, the signer,
  \<open>transfer_estimateGas to amount\<close> (the simulation), and
  \<open>transfer_send to amount gasLimit\<close> (the submission).
\<close>

record AppChain =
  window_ethereum :: bool
  app_getSigner :: "js_error + JsonRpcSigner"
  transfer_estimateGas :: "string \<Rightarrow> int \<Rightarrow> js_error + nat"
  transfer_send :: "string \<Rightarrow> int \<Rightarrow> nat \<Rightarrow> js_error + TransactionResponse"

definition recipient :: string where
  "recipient = ''0x0000000000000000000000000000000000000000''"

text \<open>The message the \<open>catch\<close> block of \<open>handleTransfer\<close> stores, by the error's code.\<close>

definition transfer_error_message :: "js_error \<Rightarrow> string" where
  "transfer_error_message err =
     (if code err = Some (StrCode ''INSUFFICIENT_FUNDS'')
      then ''You don't have enough ETH for gas fees.''
      else if code err = Some (StrCode ''ACTION_REJECTED'')
      then ''Transaction rejected by user.''
      else ''Gas estimation failed. The transaction might revert.'')"

text \<open>\<open>receipt && receipt.status === 1\<close>\<close>

definition receipt_succeeded :: "TransactionReceipt option \<Rightarrow> bool" where
  "receipt_succeeded receipt = (case receipt of None \<Rightarrow> False | Some rc \<Rightarrow> status rc = Some 1)"

definition handleTransfer :: "AppChain \<Rightarrow> (AppState, app_call, unit) action" where
  "handleTransfer ch = (\<lambda>s.
     if \<not> window_ethereum ch then return () s
     else try_finally
       (try_catch
          (then_do (set_cells (\<lambda>c. c\<lparr>loading := True, error := None, txHash := None\<rparr>)) (\<lambda>u.
           then_do (await App_getSigner (app_getSigner ch)) (\<lambda>sg.
           then_do (settled (parseUnits ''0.1''
                      (or_number (map_option decimals (tokenData s)) 18))) (\<lambda>amount.
           then_do (await (App_estimateGas recipient amount)
                          (transfer_estimateGas ch recipient amount)) (\<lambda>estimatedGas.
           let gasLimitWithBuffer = (estimatedGas * 120) div 100 in
           then_do (await (App_transfer recipient amount gasLimitWithBuffer)
                          (transfer_send ch recipient amount gasLimitWithBuffer)) (\<lambda>tx.
           then_do (set_cells (\<lambda>c. c\<lparr>txHash := Some (hash tx)\<rparr>)) (\<lambda>u.
           then_do (await (App_wait (hash tx)) (wait tx)) (\<lambda>receipt.
           if receipt_succeeded receipt then
             then_do (await (App_alert ''Transfer Successful with manual gas limit!'') (Inr ()))
               (\<lambda>u. if truthy (account s)
                     then await (App_fetchContractData (the (account s))) (Inr ())
                     else return ())
           else throw (new_Error ''Transaction failed on-chain'')))))))))
          (\<lambda>err. set_cells (\<lambda>c. c\<lparr>error := Some (transfer_error_message err)\<rparr>)))
       (\<lambda>c. c\<lparr>loading := False\<rparr>) s)"

definition is_submission :: "app_call \<Rightarrow> bool" where
  "is_submission c = (case c of App_transfer to amount gasLimit \<Rightarrow> True | _ \<Rightarrow> False)"

section \<open>useWeb3: the wallet session\<close>

record NetworkInfo =
  chainId :: nat
  name :: string
  nativeCurrency :: string
  explorerUrl :: string
  isSupported :: bool

definition SUPPORTED_NETWORKS :: "nat \<rightharpoonup> NetworkInfo" where
  "SUPPORTED_NETWORKS = map_of
     [(1, \<lparr>chainId = 1, name = ''Ethereum Mainnet'', nativeCurrency = ''ETH'',
           explorerUrl = ''https://etherscan.io'', isSupported = True\<rparr>),
      (11155111, \<lparr>chainId = 11155111, name = ''Sepolia Testnet'', nativeCurrency = ''ETH'',
           explorerUrl = ''https://sepolia.etherscan.io'', isSupported = True\<rparr>),
      (5, \<lparr>chainId = 5, name = ''Goerli Testnet'', nativeCurrency = ''ETH'',
           explorerUrl = ''https://goerli.etherscan.io'', isSupported = False\<rparr>),
      (8453, \<lparr>chainId = 8453, name = ''Base Mainnet'', nativeCurrency = ''ETH'',
           explorerUrl = ''https://basescan.org'', isSupported = False\<rparr>),
      (84532, \<lparr>chainId = 84532, name = ''Base Sepolia'', nativeCurrency = ''ETH'',
           explorerUrl = ''https://base-sepolia.blockscout.com'', isSupported = False\<rparr>)]"

definition getRpcUrls :: "nat \<Rightarrow> string list" where
  "getRpcUrls chain =
     (case map_of
         [(1, [''https://mainnet.infura.io/v3/YOUR_INFURA_KEY'']),
          (11155111, [''https://sepolia.infura.io/v3/YOUR_INFURA_KEY'']),
          (5, [''https://goerli.infura.io/v3/YOUR_INFURA_KEY'']),
          (8453, [''https://mainnet.base.org'']),
          (84532, [''https://sepolia.base.org''])] chain of
        Some urls \<Rightarrow> urls
      | None \<Rightarrow> [''https://ethereum.publicnode.com''])"

text \<open>The five state cells of \<open>useWeb3\<close>.\<close>

record Web3State =
  provider :: "BrowserProvider option"
  signer :: "JsonRpcSigner option"
  account :: "string option"
  chainId :: "nat option"
  network :: "NetworkInfo option"

text \<open>The parameter object of \<open>wallet_addEthereumChain\<close>, as \<open>switchNetwork\<close> builds it.\<close>

datatype AddEthereumChainParameter = AddEthereumChainParameter
  (param_chainId: "nat option")
  (chainName: string)
  (currency_name: string)
  (currency_symbol: string)
  (currency_decimals: nat)
  (rpcUrls: "string list")
  (blockExplorerUrls: "string list")

text \<open>The requests \<open>useWeb3\<close> sends through the provider.\<close>

datatype rpc_request =
    Send_eth_requestAccounts
  | Call_getNetwork
  | Call_getSigner
  | Send_wallet_switchEthereumChain string
  | Send_wallet_addEthereumChain AddEthereumChainParameter

text \<open>
  What the injected wallet answers to the three requests that go to it through
  \<open>provider.send\<close>, and what \<open>provider.getNetwork()\<close> and \<open>provider.getSigner()\<close> give.
\<close>

record Wallet =
  eth_requestAccounts :: "js_error + string list"
  getNetwork :: "js_error + nat"
  getSigner :: "js_error + JsonRpcSigner"
  wallet_switchEthereumChain :: "string \<Rightarrow> js_error + unit"
  wallet_addEthereumChain :: "AddEthereumChainParameter \<Rightarrow> js_error + unit"

definition updateNetworkInfo :: "nat \<Rightarrow> 'a Web3State_scheme \<Rightarrow> 'a Web3State_scheme" where
  "updateNetworkInfo chainIdNum s =
     s\<lparr>chainId := Some chainIdNum,
       network := Some
         (case SUPPORTED_NETWORKS chainIdNum of
            Some networkInfo \<Rightarrow> networkInfo
          | None \<Rightarrow> \<lparr>NetworkInfo.chainId = chainIdNum,
                     name = ''Chain '' @ toString_radix 10 chainIdNum,
                     nativeCurrency = ''ETH'', explorerUrl = ''#'', isSupported = False\<rparr>)\<rparr>"

text \<open>
  The effect run when the hook mounts: the provider cell is set when the page has an
  injected wallet; the account is read from the signer the wallet grants without asking
  (a refusal is ignored), and the network is read.
\<close>

definition useWeb3_mount ::
  "bool \<Rightarrow> Wallet \<Rightarrow> 'a Web3State_scheme \<Rightarrow> 'a Web3State_scheme" where
  "useWeb3_mount has_ethereum w s =
     (if has_ethereum then
        (let s1 = s\<lparr>provider := Some BrowserProvider\<rparr>;
             s2 = (case getSigner w of
                     Inr sg \<Rightarrow> s1\<lparr>account := Some (signer_address sg)\<rparr>
                   | Inl err \<Rightarrow> s1)
         in case getNetwork w of
              Inr networkData \<Rightarrow> updateNetworkInfo networkData s2
            | Inl err \<Rightarrow> s2)
      else s)"

text \<open>
  The two listeners. \<open>handleAccountsChanged\<close> is \<open>setAccount(accounts[0] || null)\<close>.
  \<open>handleChainChanged\<close> takes the chain id the wallet announces (the hook receives it as
  a hexadecimal string and takes its \<open>Number\<close>) and sets the chain and network cells.
\<close>

definition handleAccountsChanged ::
  "string list \<Rightarrow> 'a Web3State_scheme \<Rightarrow> 'a Web3State_scheme" where
  "handleAccountsChanged accounts s =
     s\<lparr>account := (if truthy (first_element accounts) then first_element accounts else None)\<rparr>"

definition handleChainChanged :: "nat \<Rightarrow> 'a Web3State_scheme \<Rightarrow> 'a Web3State_scheme" where
  "handleChainChanged newChainId s =
     s\<lparr>chainId := Some newChainId,
       network := Some
         (case SUPPORTED_NETWORKS newChainId of
            Some networkInfo \<Rightarrow> networkInfo
          | None \<Rightarrow> \<lparr>NetworkInfo.chainId = newChainId,
                     name = ''Chain '' @ toString_radix 10 newChainId,
                     nativeCurrency = ''ETH'', explorerUrl = ''#'', isSupported = False\<rparr>)\<rparr>"

definition connectWallet :: "Wallet \<Rightarrow> (Web3State, rpc_request, unit) action" where
  "connectWallet w = (\<lambda>s.
     if provider s = None then throw (new_Error ''MetaMask not detected'') s
     else try_catch
       (then_do (await Send_eth_requestAccounts
                       (BrowserProvider_send (eth_requestAccounts w))) (\<lambda>accounts.
        then_do (await Call_getNetwork (getNetwork w)) (\<lambda>networkData.
        then_do (await Call_getSigner (getSigner w)) (\<lambda>sg.
        then_do (set_cells (\<lambda>c. c\<lparr>signer := Some sg\<rparr>)) (\<lambda>u1.
        then_do (set_cells (\<lambda>c. c\<lparr>account := first_element accounts\<rparr>)) (\<lambda>u2.
        set_cells (updateNetworkInfo networkData)))))))
       (\<lambda>error. throw error) s)"

definition disconnectWallet :: "Web3State \<Rightarrow> Web3State" where
  "disconnectWallet s = s\<lparr>signer := None, account := None, chainId := None, network := None\<rparr>"

definition switchNetwork :: "Wallet \<Rightarrow> nat \<Rightarrow> (Web3State, rpc_request, unit) action" where
  "switchNetwork w targetChainId = (\<lambda>s.
     if provider s = None then throw (new_Error ''Wallet not connected'') s
     else try_catch
       (let hexChainId = ''0x'' @ toString_radix 16 targetChainId
        in await (Send_wallet_switchEthereumChain hexChainId)
                 (BrowserProvider_send (wallet_switchEthereumChain w hexChainId)))
       (\<lambda>switchError.
          if code switchError = Some (NumCode 4902) then
            (case SUPPORTED_NETWORKS targetChainId of
               None \<Rightarrow>
                 throw (new_Error (''Network '' @ toString_radix 10 targetChainId @ '' is not configured''))
             | Some networkInfo \<Rightarrow>
                 (let params = AddEthereumChainParameter
                        (chainId s)
                        (NetworkInfo.name networkInfo)
                        (nativeCurrency networkInfo)
                        (nativeCurrency networkInfo)
                        18
                        (getRpcUrls targetChainId)
                        [explorerUrl networkInfo]
                  in await (Send_wallet_addEthereumChain params)
                           (BrowserProvider_send (wallet_addEthereumChain w params))))
          else throw switchError) s)"

definition is_addEthereumChain :: "rpc_request \<Rightarrow> bool" where
  "is_addEthereumChain r = (case r of Send_wallet_addEthereumChain p \<Rightarrow> True | _ \<Rightarrow> False)"

section \<open>The chain, as the contract objects answer\<close>

text \<open>
  The answers of the token contracts and of the vault contract:
  \<open>token_name token\<close>, \<open>token_symbol token\<close>, \<open>token_decimals token\<close>,
  \<open>token_balanceOf token owner\<close>, \<open>token_approve token spender amount\<close>,
  \<open>vault_getUserBalance user token\<close>, \<open>vault_deposit token amount\<close>,
  \<open>vault_withdraw token amount\<close>.
\<close>

record Chain =
  token_name :: "string \<Rightarrow> js_error + string"
  token_symbol :: "string \<Rightarrow> js_error + string"
  token_decimals :: "string \<Rightarrow> js_error + nat"
  token_balanceOf :: "string \<Rightarrow> string \<Rightarrow> js_error + nat"
  token_approve :: "string \<Rightarrow> string \<Rightarrow> int \<Rightarrow> js_error + TransactionResponse"
  vault_getUserBalance :: "string \<Rightarrow> string \<Rightarrow> js_error + nat"
  vault_deposit :: "string \<Rightarrow> int \<Rightarrow> js_error + TransactionResponse"
  vault_withdraw :: "string \<Rightarrow> int \<Rightarrow> js_error + TransactionResponse"

section \<open>useERC20: token metadata and the balance hook\<close>

record TokenInfo =
  name :: string
  symbol :: string
  decimals :: nat
  address :: string

text \<open>
  The \<open>decimals\<close> field of the object \<open>useERC20Balance\<close> returns:
  \<open>tokenInfo?.decimals || 18\<close>. \<open>tokenInfo\<close> is \<open>null\<close> until the three metadata reads
  have resolved; its \<open>decimals\<close> is \<open>Number\<close> of the contract's \<open>uint8\<close> answer.
\<close>

definition useERC20Balance_decimals :: "TokenInfo option \<Rightarrow> nat" where
  "useERC20Balance_decimals info = or_number (map_option decimals info) 18"

text \<open>
  The two memoised strings of \<open>useERC20Balance\<close>. \<open>balanceFormatted\<close> is "0" while the
  token information is not loaded and when \<open>formatUnits\<close> throws; \<open>balanceDisplay\<close> is
  computed from the Number that \<open>parseFloat\<close> reads from it. \<open>displayed_balance\<close> is
  the \<open>balanceDisplay\<close> the hook returns for given token information and raw balance.
\<close>

definition useERC20Balance_balanceFormatted :: "TokenInfo option \<Rightarrow> nat \<Rightarrow> string" where
  "useERC20Balance_balanceFormatted info raw =
     (case info of
        None \<Rightarrow> ''0''
      | Some ti \<Rightarrow>
         (case formatUnits raw (TokenInfo.decimals ti) of
            Inr formatted \<Rightarrow> formatted
          | Inl err \<Rightarrow> ''0''))"

definition useERC20Balance_balanceDisplay :: "TokenInfo option \<Rightarrow> string \<Rightarrow> string" where
  "useERC20Balance_balanceDisplay info formatted =
     (case info of
        None \<Rightarrow> ''0.00''
      | Some ti \<Rightarrow>
         (case parseFloat formatted of
            None \<Rightarrow> ''NaN''
          | Some num \<Rightarrow>
              if num = 0 then ''0.00''
              else if num < to_double (1 / 10000) then ''< 0.0001''
              else if num < 1 then toFixed num 4
              else toLocaleString_en_US num 6))"

definition displayed_balance :: "TokenInfo option \<Rightarrow> nat \<Rightarrow> string" where
  "displayed_balance info raw =
     useERC20Balance_balanceDisplay info (useERC20Balance_balanceFormatted info raw)"

text \<open>
  The cells of \<open>useERC20Balance\<close>. \<open>fetchBalance\<close> runs in two parts: up to the
  \<open>await\<close> of \<open>balanceOf\<close> when it is called (by the effect, or by the \<open>Transfer\<close>
  listener), and the rest when that read settles. Nothing links the second part to the
  call that started it: each settlement writes the cells.
\<close>

record BalanceState =
  balanceRaw :: nat
  loading :: bool
  error :: "string option"







section \<open>The contract addresses\<close>

text \<open>
  \<open>NETWORK_CONFIG\<close> of \<open>contracts/addresses.ts\<close>: for Sepolia and for Mainnet, the address
  of the vault (the placeholder "0x..." in both entries) and the supported tokens by
  symbol. \<open>getContractAddresses\<close> gives the entry of a chain, and the entry of Sepolia
  for a chain that has none.
\<close>

record ContractAddresses =
  vaultAddress :: string
  supportedTokens :: "(string \<times> string) list"

definition NETWORK_CONFIG :: "nat \<rightharpoonup> ContractAddresses" where
  "NETWORK_CONFIG = map_of
     [(11155111,
       \<lparr>vaultAddress = ''0x...'',
        supportedTokens =
          [(''USDC'', ''0x1c7D4B196Cb0C7B01d743Fbc6116a902379C7238''),
           (''DAI'', ''0x2c204C811a9919E5dC4b0b975921A369b13a2d37''),
           (''USDT'', ''0x...''),
           (''WETH'', ''0xfFf9976782d46CC05630D1f6eBAb18b2324d6B14'')]\<rparr>),
      (1,
       \<lparr>vaultAddress = ''0x...'',
        supportedTokens =
          [(''USDT'', ''0xdAC17F958D2ee523a2206206994597C13D831ec7''),
           (''USDC'', ''0xA0b86991c6218b36c1d19D4a2e9Eb0cE3606eB48''),
           (''DAI'', ''0x6B175474E89094C44Da98b954EedeAC495271d0F'')]\<rparr>)]"

definition getContractAddresses :: "nat \<Rightarrow> ContractAddresses" where
  "getContractAddresses chain =
     (case NETWORK_CONFIG chain of
        Some addresses \<Rightarrow> addresses
      | None \<Rightarrow> the (NETWORK_CONFIG 11155111))"

section \<open>useVault: the vault client\<close>

record VaultBalance =
  tokenAddress :: string
  balanceRaw :: nat
  balanceFormatted :: string

text \<open>
  The cells \<open>useVault\<close> reads: those of \<open>useWeb3\<close> (provider, signer, account, chainId),
  and its own.
\<close>

record VaultState = Web3State +
  vaultContract :: "Contract option"
  vaultAddress :: string
  isPaused :: bool
  loading :: bool

text \<open>The contract calls \<open>useVault\<close> issues, with their arguments.\<close>

datatype vault_call =
    Call_getUserBalance string string
  | Call_approve string string int
  | Call_deposit string int
  | Call_withdraw string int
  | Call_wait string

definition getUserBalance :: "Chain \<Rightarrow> string \<Rightarrow> (VaultState, vault_call, nat) action" where
  "getUserBalance ch token = (\<lambda>s.
     if vaultContract s = None \<or> \<not> truthy (account s) then return 0 s
     else try_catch
       (await (Call_getUserBalance (the (account s)) token)
              (vault_getUserBalance ch (the (account s)) token))
       (\<lambda>err. return 0) s)"

definition getAllBalances ::
  "Chain \<Rightarrow> string list \<Rightarrow> (VaultState, vault_call, VaultBalance list) action" where
  "getAllBalances ch tokenAddresses = (\<lambda>s.
     if vaultContract s = None \<or> \<not> truthy (account s) then return [] s
     else try_catch
       (Promise_all (map (\<lambda>token.
          then_do (await (Call_getUserBalance (the (account s)) token)
                         (vault_getUserBalance ch (the (account s)) token))
            (\<lambda>raw. return \<lparr>tokenAddress = token, balanceRaw = raw,
                             balanceFormatted = toString_radix 10 raw\<rparr>))
          tokenAddresses))
       (\<lambda>err. return []) s)"

definition deposit :: "Chain \<Rightarrow> string \<Rightarrow> string \<Rightarrow> (VaultState, vault_call, unit) action" where
  "deposit ch token amount = (\<lambda>s.
     if signer s = None \<or> vaultContract s = None \<or> \<not> truthy (account s)
     then throw (new_Error ''Wallet not connected'') s
     else if isPaused s then throw (new_Error ''Vault is currently paused'') s
     else try_finally
       (try_catch
          (then_do (set_cells (\<lambda>c. c\<lparr>loading := True\<rparr>)) (\<lambda>u.
           then_do (settled (parseUnits amount 18)) (\<lambda>amountRaw.
           then_do (await (Call_approve token (vaultAddress s) amountRaw)
                          (token_approve ch token (vaultAddress s) amountRaw)) (\<lambda>approveTx.
           then_do (await (Call_wait (hash approveTx)) (wait approveTx)) (\<lambda>approved.
           then_do (await (Call_deposit token amountRaw)
                          (vault_deposit ch token amountRaw)) (\<lambda>depositTx.
           then_do (await (Call_wait (hash depositTx)) (wait depositTx)) (\<lambda>deposited.
           return ())))))))
          (\<lambda>err. throw err))
       (\<lambda>c. c\<lparr>loading := False\<rparr>) s)"

definition withdraw :: "Chain \<Rightarrow> string \<Rightarrow> string \<Rightarrow> (VaultState, vault_call, unit) action" where
  "withdraw ch token amount = (\<lambda>s.
     if signer s = None \<or> vaultContract s = None \<or> \<not> truthy (account s)
     then throw (new_Error ''Wallet not connected'') s
     else if isPaused s then throw (new_Error ''Vault is currently paused'') s
     else try_finally
       (try_catch
          (then_do (set_cells (\<lambda>c. c\<lparr>loading := True\<rparr>)) (\<lambda>u.
           then_do (settled (parseUnits amount 18)) (\<lambda>amountRaw.
           then_do (await (Call_withdraw token amountRaw)
                          (vault_withdraw ch token amountRaw)) (\<lambda>withdrawTx.
           then_do (await (Call_wait (hash withdrawTx)) (wait withdrawTx)) (\<lambda>withdrawn.
           return ())))))
          (\<lambda>err. throw err))
       (\<lambda>c. c\<lparr>loading := False\<rparr>) s)"


definition is_deposit_call :: "vault_call \<Rightarrow> bool" where
  "is_deposit_call c = (case c of Call_deposit token amountRaw \<Rightarrow> True | _ \<Rightarrow> False)"

text \<open>
  The allowance phase of \<open>deposit\<close> failed: the \<open>approve\<close> call was rejected, or awaiting
  its inclusion threw.
\<close>

definition approve_phase_failed :: "Chain \<Rightarrow> string \<Rightarrow> string \<Rightarrow> int \<Rightarrow> bool" where
  "approve_phase_failed ch token spender amountRaw =
     (case token_approve ch token spender amountRaw of
        Inl err \<Rightarrow> True
      | Inr approveTx \<Rightarrow> isl (wait approveTx))"

subsection \<open>The cells of useVault over the life of the hook\<close>

text \<open>
  \<open>useVault\<close> takes provider, signer, account and chainId from its own call of
  \<open>useWeb3()\<close>. \<open>useWeb3\<close> is a hook, not a context: every call of it has its own five
  cells, so the cells \<open>useVault\<close> reads are not those of the component that shows the
  connect button. Of what \<open>useWeb3\<close> returns, \<open>useVault\<close> keeps the four cells only; it
  never calls \<open>connectWallet\<close>, \<open>disconnectWallet\<close> or \<open>switchNetwork\<close> of its instance.

  The cells start as \<open>useState\<close> creates them. What changes them afterwards: the mount
  effect of \<open>useWeb3\<close> and its two listeners; the effect of \<open>useVault\<close> on provider and
  chainId, which sets the vault address and the vault contract (it returns at once while
  there is no provider or \<open>chainId\<close> is \<open>null\<close> or 0); the read of the paused flag, whose
  failure is ignored; and \<open>deposit\<close> and \<open>withdraw\<close>, which set the loading cell.
  \<open>getUserBalance\<close> and \<open>getAllBalances\<close> change no cell.
\<close>

definition useVault_initial :: VaultState where
  "useVault_initial =
     \<lparr>provider = None, signer = None, account = None, chainId = None, network = None,
      vaultContract = None, vaultAddress = [], isPaused = False, loading = False\<rparr>"

definition useVault_contract_effect :: "VaultState \<Rightarrow> VaultState" where
  "useVault_contract_effect s =
     (if provider s = None \<or> chainId s = None \<or> chainId s = Some 0 then s
      else (let addresses = getContractAddresses (the (chainId s))
            in s\<lparr>vaultAddress := ContractAddresses.vaultAddress addresses,
                 vaultContract := Some (Contract (ContractAddresses.vaultAddress addresses))\<rparr>))"

definition fetchPausedState :: "js_error + bool \<Rightarrow> VaultState \<Rightarrow> VaultState" where
  "fetchPausedState paused s =
     (if vaultContract s = None then s
      else (case paused of
              Inr flag \<Rightarrow> s\<lparr>isPaused := flag\<rparr>
            | Inl err \<Rightarrow> s))"

datatype vault_event =
    Web3_mounted bool Wallet
  | Accounts_changed "string list"
  | Chain_changed nat
  | Contract_effect
  | Paused_read "js_error + bool"
  | Deposit_called Chain string string
  | Withdraw_called Chain string string

fun vault_step :: "VaultState \<Rightarrow> vault_event \<Rightarrow> VaultState" where
  "vault_step s (Web3_mounted has_ethereum w) = useWeb3_mount has_ethereum w s"
| "vault_step s (Accounts_changed accounts) = handleAccountsChanged accounts s"
| "vault_step s (Chain_changed newChainId) = handleChainChanged newChainId s"
| "vault_step s Contract_effect = useVault_contract_effect s"
| "vault_step s (Paused_read paused) = fetchPausedState paused s"
| "vault_step s (Deposit_called ch token amount) = fst (snd (deposit ch token amount s))"
| "vault_step s (Withdraw_called ch token amount) = fst (snd (withdraw ch token amount s))"

definition run_vault :: "vault_event list \<Rightarrow> VaultState" where
  "run_vault history = foldl vault_step useVault_initial history"

section \<open>Example sessions\<close>

text \<open>
  A state of the cells in which the guards of \<open>deposit\<close> and \<open>withdraw\<close> pass: signer,
  account and vault contract are set, on Sepolia, and the vault is not paused. It serves
  to evaluate the functions past their guards; the hook itself never sets the signer
  cell it reads (see \<open>mounted_vault\<close> below for the cells it does reach). The chains are
  those on which the properties below are evaluated: on \<open>usdc_chain\<close> every call
  succeeds and the token \<open>0xUSDC\<close> has 6 decimals.
\<close>

definition connected_vault :: VaultState where
  "connected_vault =
     \<lparr>provider = Some BrowserProvider, signer = Some (JsonRpcSigner ''0xAAA''),
      account = Some ''0xAAA'', chainId = Some 11155111,
      network = SUPPORTED_NETWORKS 11155111,
      vaultContract = Some (Contract ''0xVAULT''), vaultAddress = ''0xVAULT'',
      isPaused = False, loading = False\<rparr>"

text \<open>
  The cells of \<open>useVault\<close> on a page whose wallet has granted the account \<open>0xAAA\<close> on
  Sepolia: the hook has mounted, the vault contract is set and the vault is read as not
  paused. The user may have connected through the button of the page; that sets the
  signer cell of the page's own \<open>useWeb3\<close>, not the one \<open>useVault\<close> reads.
\<close>

definition granting_wallet :: Wallet where
  "granting_wallet =
     \<lparr>eth_requestAccounts = Inr [''0xAAA''], getNetwork = Inr 11155111,
      getSigner = Inr (JsonRpcSigner ''0xAAA''),
      wallet_switchEthereumChain = (\<lambda>h. Inr ()),
      wallet_addEthereumChain = (\<lambda>p. Inr ())\<rparr>"

definition mounted_history :: "vault_event list" where
  "mounted_history = [Web3_mounted True granting_wallet, Contract_effect, Paused_read (Inr False)]"

definition mounted_vault :: VaultState where
  "mounted_vault =
     \<lparr>provider = Some BrowserProvider, signer = None,
      account = Some ''0xAAA'', chainId = Some 11155111,
      network = SUPPORTED_NETWORKS 11155111,
      vaultContract = Some (Contract ''0x...''), vaultAddress = ''0x...'',
      isPaused = False, loading = False\<rparr>"

definition included :: "string \<Rightarrow> TransactionResponse" where
  "included tx_hash =
     TransactionResponse tx_hash (Inr (Some (TransactionReceipt tx_hash (Some 1))))"

definition usdc_chain :: Chain where
  "usdc_chain =
     \<lparr>token_name = (\<lambda>token. Inr ''USD Coin''),
      token_symbol = (\<lambda>token. Inr ''USDC''),
      token_decimals = (\<lambda>token. Inr 6),
      token_balanceOf = (\<lambda>token owner. Inr 1500000),
      token_approve = (\<lambda>token spender amountRaw. Inr (included ''0xa1'')),
      vault_getUserBalance = (\<lambda>user token. Inr 1500000),
      vault_deposit = (\<lambda>token amountRaw. Inr (included ''0xd1'')),
      vault_withdraw = (\<lambda>token amountRaw. Inr (included ''0xf1''))\<rparr>"

text \<open>The user declines to sign the \<open>approve\<close> transaction.\<close>

definition approve_rejected_chain :: Chain where
  "approve_rejected_chain =
     usdc_chain\<lparr>token_approve :=
       (\<lambda>token spender amountRaw.
          Inl (JsError (Some (StrCode ''ACTION_REJECTED'')) ''user rejected action''))\<rparr>"

text \<open>The vault's balance query reverts for the token \<open>0xDAI\<close> and answers for the others.\<close>

definition dai_failing_chain :: Chain where
  "dai_failing_chain =
     usdc_chain\<lparr>vault_getUserBalance :=
       (\<lambda>user token.
          if token = ''0xDAI''
          then Inl (JsError (Some (StrCode ''CALL_EXCEPTION'')) ''execution reverted'')
          else Inr 1500000)\<rparr>"

text \<open>
  The page of \<open>App\<close> with the token data of a 6-decimals token loaded, and a wallet on
  which the simulation of the transfer reverts while a submission would be accepted.
\<close>

definition estimate_reverting :: AppChain where
  "estimate_reverting =
     \<lparr>window_ethereum = True,
      app_getSigner = Inr (JsonRpcSigner ''0xAAA''),
      transfer_estimateGas =
        (\<lambda>to amount. Inl (JsError (Some (StrCode ''CALL_EXCEPTION'')) ''execution reverted'')),
      transfer_send = (\<lambda>to amount gasLimit. Inr (included ''0xb1''))\<rparr>"

definition usdc_app :: AppState where
  "usdc_app =
     \<lparr>AppState.account = Some ''0xAAA'',
      tokenData = Some \<lparr>TokenData.name = ''USD Coin'', TokenData.symbol = ''USDC'',
                        balance = ''1.5'', TokenData.decimals = 6\<rparr>,
      AppState.loading = False, AppState.error = None, txHash = None\<rparr>"

text \<open>A token with a given number of decimals, for the display examples.\<close>

definition example_token :: "nat \<Rightarrow> TokenInfo" where
  "example_token d =
     \<lparr>TokenInfo.name = ''Example'', TokenInfo.symbol = ''EXM'', TokenInfo.decimals = d,
      address = ''0xEXM''\<rparr>"

section \<open>Properties\<close>

subsection \<open>Auxiliary facts about the embedding\<close>

lemma Promise_all_each:
  assumes each: "\<And>t s. g t s = (r t, s, [c t])"
  shows "snd (Promise_all (map g ts) s) = (s, map c ts) \<and>
         (list_ex (\<lambda>t. isl (r t)) ts \<longrightarrow> isl (fst (Promise_all (map g ts) s))) \<and>
         (\<not> list_ex (\<lambda>t. isl (r t)) ts \<longrightarrow>
            fst (Promise_all (map g ts) s) = Inr (map (\<lambda>t. projr (r t)) ts))"
proof (induction ts)
  case Nil
  show ?case by (simp add: return_def)
next
  case (Cons t ts)
  obtain rs where rest: "Promise_all (map g ts) s = (rs, s, map c ts)"
    using Cons.IH by (cases "Promise_all (map g ts) s") simp
  have step: "Promise_all (map g (t # ts)) s =
      ((case r t of Inl err \<Rightarrow> Inl err
        | Inr v \<Rightarrow> (case rs of Inl err \<Rightarrow> Inl err | Inr vs \<Rightarrow> Inr (v # vs))),
       s, c t # map c ts)"
    by (simp add: each rest)
  from Cons.IH rest have bad: "list_ex (\<lambda>t. isl (r t)) ts \<Longrightarrow> isl rs"
    and good: "\<not> list_ex (\<lambda>t. isl (r t)) ts \<Longrightarrow> rs = Inr (map (\<lambda>t. projr (r t)) ts)"
    by simp_all
  show ?case
  proof (cases "r t")
    case (Inl err)
    then show ?thesis unfolding step by simp
  next
    case (Inr v)
    show ?thesis
    proof (cases "list_ex (\<lambda>t. isl (r t)) ts")
      case True
      with bad Inr show ?thesis unfolding step by (cases rs) simp_all
    next
      case False
      with good Inr show ?thesis unfolding step by simp
    qed
  qed
qed

lemma balance_query_each:
  "then_do (await (c t) (q t)) (\<lambda>raw. return (f t raw)) s = (map_sum id (f t) (q t), s, [c t])"
  by (cases "q t") (simp_all add: then_do_def await_def return_def)

lemma BigInt_zeros:
  "foldl (\<lambda>acc c. 10 * acc + digit_value c) a (replicate n CHR ''0'') = a * 10 ^ n"
  by (induction n arbitrary: a) (simp_all add: digit_value_def)

lemma parseUnits_10_at_18: "parseUnits ''10'' 18 = Inr 10000000000000000000"
  by (simp add: parseUnits_def isDigit_def BigInt_digits_def BigInt_zeros) (simp add: digit_value_def)


lemma dec_1500000: "toString_radix 10 1500000 = ''1500000''"
  by (simp add: toString_radix.simps)

lemma deposit_unfold:
  "deposit ch token amount s =
     (if signer s = None \<or> vaultContract s = None \<or> \<not> truthy (account s)
      then (Inl (new_Error ''Wallet not connected''), s, [])
      else if isPaused s then (Inl (new_Error ''Vault is currently paused''), s, [])
      else (case parseUnits amount 18 of
              Inl err \<Rightarrow> (Inl err, s\<lparr>loading := False\<rparr>, [])
            | Inr amountRaw \<Rightarrow>
               (case token_approve ch token (vaultAddress s) amountRaw of
                  Inl err \<Rightarrow> (Inl err, s\<lparr>loading := False\<rparr>,
                               [Call_approve token (vaultAddress s) amountRaw])
                | Inr approveTx \<Rightarrow>
                   (case wait approveTx of
                      Inl err \<Rightarrow> (Inl err, s\<lparr>loading := False\<rparr>,
                                   [Call_approve token (vaultAddress s) amountRaw,
                                    Call_wait (hash approveTx)])
                    | Inr approved \<Rightarrow>
                       (case vault_deposit ch token amountRaw of
                          Inl err \<Rightarrow> (Inl err, s\<lparr>loading := False\<rparr>,
                                       [Call_approve token (vaultAddress s) amountRaw,
                                        Call_wait (hash approveTx),
                                        Call_deposit token amountRaw])
                        | Inr depositTx \<Rightarrow>
                           (case wait depositTx of
                              Inl err \<Rightarrow> (Inl err, s\<lparr>loading := False\<rparr>,
                                           [Call_approve token (vaultAddress s) amountRaw,
                                            Call_wait (hash approveTx),
                                            Call_deposit token amountRaw,
                                            Call_wait (hash depositTx)])
                            | Inr deposited \<Rightarrow> (Inr (), s\<lparr>loading := False\<rparr>,
                                           [Call_approve token (vaultAddress s) amountRaw,
                                            Call_wait (hash approveTx),
                                            Call_deposit token amountRaw,
                                            Call_wait (hash depositTx)])))))))"
  by (simp add: deposit_def try_finally_def try_catch_def then_do_def await_def set_cells_def
      settled_def throw_def return_def split: sum.splits)


lemma deposit_call_position:
  assumes run: "deposit ch token amount s = (r, s', calls)"
    and here: "calls = pre @ Call_deposit t a # post"
  shows "t = token \<and> parseUnits amount 18 = Inr a \<and>
        (\<exists>approveTx approved.
            token_approve ch token (vaultAddress s) a = Inr approveTx \<and>
            wait approveTx = Inr approved \<and>
            pre = [Call_approve token (vaultAddress s) a, Call_wait (hash approveTx)])"
  using run here unfolding deposit_unfold
  by (auto split: if_splits sum.splits simp: Cons_eq_append_conv)

lemma deposit_after_failed_approve:
  assumes run: "deposit ch token amount s = (r, s', calls)"
    and amt: "parseUnits amount 18 = Inr a"
    and failed: "approve_phase_failed ch token (vaultAddress s) a"
  shows "isl r \<and> \<not> list_ex is_deposit_call calls"
  using run failed unfolding deposit_unfold approve_phase_failed_def is_deposit_call_def amt
  by (auto split: if_splits sum.splits)

lemma deposit_success:
  assumes run: "deposit ch token amount s = (Inr (), s', calls)"
  shows "\<exists>a approveTx approved depositTx deposited.
            parseUnits amount 18 = Inr a \<and>
            token_approve ch token (vaultAddress s) a = Inr approveTx \<and>
            wait approveTx = Inr approved \<and>
            vault_deposit ch token a = Inr depositTx \<and>
            wait depositTx = Inr deposited \<and>
            calls = [Call_approve token (vaultAddress s) a, Call_wait (hash approveTx),
                     Call_deposit token a, Call_wait (hash depositTx)]"
  using run unfolding deposit_unfold
  by (auto split: if_splits sum.splits)

lemma deposit_usdc_example:
  "deposit usdc_chain ''0xUSDC'' ''10'' connected_vault =
     (Inr (), connected_vault\<lparr>loading := False\<rparr>,
      [Call_approve ''0xUSDC'' ''0xVAULT'' 10000000000000000000, Call_wait ''0xa1'',
       Call_deposit ''0xUSDC'' 10000000000000000000, Call_wait ''0xd1''])"
  by (simp add: deposit_unfold parseUnits_10_at_18 usdc_chain_def connected_vault_def
      included_def truthy_def)

lemma deposit_rejected_example:
  "deposit approve_rejected_chain ''0xUSDC'' ''10'' connected_vault =
     (Inl (JsError (Some (StrCode ''ACTION_REJECTED'')) ''user rejected action''),
      connected_vault\<lparr>loading := False\<rparr>,
      [Call_approve ''0xUSDC'' ''0xVAULT'' 10000000000000000000])"
  by (simp add: deposit_unfold parseUnits_10_at_18 approve_rejected_chain_def usdc_chain_def
      connected_vault_def included_def truthy_def)

lemma getAllBalances_connected:
  assumes "vaultContract s \<noteq> None" and "truthy (account s)"
  shows "getAllBalances ch tokenAddresses s =
     (if list_ex (\<lambda>token. isl (vault_getUserBalance ch (the (account s)) token)) tokenAddresses
      then Inr []
      else Inr (map (\<lambda>token.
             \<lparr>tokenAddress = token,
              balanceRaw = projr (vault_getUserBalance ch (the (account s)) token),
              balanceFormatted =
                toString_radix 10 (projr (vault_getUserBalance ch (the (account s)) token))\<rparr>)
             tokenAddresses),
      s,
      map (Call_getUserBalance (the (account s))) tokenAddresses)"
proof -
  let ?q = "\<lambda>token. vault_getUserBalance ch (the (account s)) token"
  let ?f = "\<lambda>token raw. \<lparr>tokenAddress = token, balanceRaw = raw,
                           balanceFormatted = toString_radix 10 raw\<rparr>"
  let ?g = "\<lambda>token. then_do (await (Call_getUserBalance (the (account s)) token) (?q token))
                       (\<lambda>raw. return (?f token raw))"
  have each: "\<And>t c. ?g t c = (map_sum id (?f t) (?q t), c, [Call_getUserBalance (the (account s)) t])"
    by (rule balance_query_each)
  note all = Promise_all_each [of ?g "\<lambda>t. map_sum id (?f t) (?q t)"
      "Call_getUserBalance (the (account s))" tokenAddresses s, OF each]
  obtain r where run: "Promise_all (map ?g tokenAddresses) s =
      (r, s, map (Call_getUserBalance (the (account s))) tokenAddresses)"
    using all by (cases "Promise_all (map ?g tokenAddresses) s") simp
  have unfolded: "getAllBalances ch tokenAddresses s =
      try_catch (Promise_all (map ?g tokenAddresses)) (\<lambda>err. return []) s"
    using assms by (auto simp: getAllBalances_def)
  have isl_eq: "\<And>t. isl (map_sum id (?f t) (?q t)) = isl (?q t)"
    by (simp add: isl_map_sum)
  have projr_eq: "\<And>t. \<not> isl (?q t) \<Longrightarrow> projr (map_sum id (?f t) (?q t)) = ?f t (projr (?q t))"
    by (case_tac "?q t") simp_all
  show ?thesis
  proof (cases "list_ex (\<lambda>token. isl (?q token)) tokenAddresses")
    case True
    with all run have "isl r" by (simp add: isl_eq)
    then obtain err where "r = Inl err" by (cases r) simp_all
    with True show ?thesis
      unfolding unfolded try_catch_def run by (simp add: return_def)
  next
    case False
    with all run have "r = Inr (map (\<lambda>t. projr (map_sum id (?f t) (?q t))) tokenAddresses)"
      by (simp add: isl_eq)
    moreover from False
    have "map (\<lambda>t. projr (map_sum id (?f t) (?q t))) tokenAddresses =
          map (\<lambda>t. ?f t (projr (?q t))) tokenAddresses"
      by (intro map_cong refl projr_eq) (auto simp: list_ex_iff)
    ultimately show ?thesis
      using False unfolding unfolded try_catch_def run by simp
  qed
qed





lemma mounted_vault_reached: "run_vault mounted_history = mounted_vault"
  by (simp add: run_vault_def mounted_history_def useVault_initial_def granting_wallet_def
      useWeb3_mount_def updateNetworkInfo_def useVault_contract_effect_def fetchPausedState_def
      getContractAddresses_def NETWORK_CONFIG_def SUPPORTED_NETWORKS_def mounted_vault_def Let_def)



lemma getRpcError_code: "code (getRpcError walletError) \<noteq> Some (NumCode n)"
  by (simp add: getRpcError_def)

lemma parseUnits_tenth:
  assumes "0 < d" and "d \<le> 80"
  shows "parseUnits ''0.1'' d = Inr (10 ^ (d - 1))"
proof -
  have "BigInt_digits (''01'' @ replicate (d - 1) CHR ''0'') = 10 ^ (d - 1)"
    unfolding BigInt_digits_def foldl_append BigInt_zeros by (simp add: digit_value_def)
  with assms show ?thesis
    by (simp add: parseUnits_def isDigit_def)
qed

lemma or_number_pos: "0 < or_number v 18"
  by (simp add: or_number_def split: option.splits)

lemma handleTransfer_unfold:
  "handleTransfer ch s =
     (if \<not> window_ethereum ch then (Inr (), s, [])
      else (case app_getSigner ch of
        Inl err \<Rightarrow>
          (Inr (), s\<lparr>AppState.loading := False, AppState.error := Some (transfer_error_message err),
                    txHash := None\<rparr>, [App_getSigner])
      | Inr sg \<Rightarrow>
         (case parseUnits ''0.1'' (or_number (map_option TokenData.decimals (tokenData s)) 18) of
            Inl err \<Rightarrow>
              (Inr (), s\<lparr>AppState.loading := False,
                        AppState.error := Some (transfer_error_message err),
                        txHash := None\<rparr>, [App_getSigner])
          | Inr amount \<Rightarrow>
             (case transfer_estimateGas ch recipient amount of
                Inl err \<Rightarrow>
                  (Inr (), s\<lparr>AppState.loading := False,
                            AppState.error := Some (transfer_error_message err),
                            txHash := None\<rparr>,
                   [App_getSigner, App_estimateGas recipient amount])
              | Inr estimatedGas \<Rightarrow>
                 (case transfer_send ch recipient amount (estimatedGas * 120 div 100) of
                    Inl err \<Rightarrow>
                      (Inr (), s\<lparr>AppState.loading := False,
                                AppState.error := Some (transfer_error_message err),
                                txHash := None\<rparr>,
                       [App_getSigner, App_estimateGas recipient amount,
                        App_transfer recipient amount (estimatedGas * 120 div 100)])
                  | Inr tx \<Rightarrow>
                     (case wait tx of
                        Inl err \<Rightarrow>
                          (Inr (), s\<lparr>AppState.loading := False,
                                    AppState.error := Some (transfer_error_message err),
                                    txHash := Some (hash tx)\<rparr>,
                           [App_getSigner, App_estimateGas recipient amount,
                            App_transfer recipient amount (estimatedGas * 120 div 100),
                            App_wait (hash tx)])
                      | Inr receipt \<Rightarrow>
                          if receipt_succeeded receipt
                          then (Inr (), s\<lparr>AppState.loading := False, AppState.error := None,
                                          txHash := Some (hash tx)\<rparr>,
                                [App_getSigner, App_estimateGas recipient amount,
                                 App_transfer recipient amount (estimatedGas * 120 div 100),
                                 App_wait (hash tx),
                                 App_alert ''Transfer Successful with manual gas limit!''] @
                                (if truthy (AppState.account s)
                                 then [App_fetchContractData (the (AppState.account s))]
                                 else []))
                          else (Inr (), s\<lparr>AppState.loading := False,
                                    AppState.error :=
                                      Some (transfer_error_message (new_Error ''Transaction failed on-chain'')),
                                    txHash := Some (hash tx)\<rparr>,
                                [App_getSigner, App_estimateGas recipient amount,
                                 App_transfer recipient amount (estimatedGas * 120 div 100),
                                 App_wait (hash tx)])))))))"
  by (simp add: handleTransfer_def try_finally_def try_catch_def then_do_def await_def
      set_cells_def settled_def throw_def return_def Let_def split: sum.splits)

lemma submission_position:
  assumes "snd (snd (handleTransfer ch s)) = pre @ App_transfer to a g # post"
  shows "\<exists>estimatedGas. transfer_estimateGas ch to a = Inr estimatedGas \<and>
           g = estimatedGas * 120 div 100 \<and> pre = [App_getSigner, App_estimateGas to a]"
  using assms unfolding handleTransfer_unfold
  by (auto split: if_splits sum.splits simp: Cons_eq_append_conv)

subsection \<open>Auxiliary facts about numbers and their strings\<close>

lemma small_digit:
  assumes "n < 10"
  shows "isDigit (''0123456789abcdef'' ! n) \<and> digit_value (''0123456789abcdef'' ! n) = n"
proof -
  from assms have "n \<in> {0, 1, 2, 3, 4, 5, 6, 7, 8, 9}" by auto
  then show ?thesis
    by (auto simp: isDigit_def digit_value_def)
qed

lemma BigInt_snoc:
  "BigInt_digits (ds @ [c]) = 10 * BigInt_digits ds + digit_value c"
  by (simp add: BigInt_digits_def)

lemma toString_10:
  "list_all isDigit (toString_radix 10 n) \<and> toString_radix 10 n \<noteq> [] \<and>
   BigInt_digits (toString_radix 10 n) = n"
proof (induction n rule: less_induct)
  case (less n)
  show ?case
  proof (cases "n < 10")
    case True
    then have "toString_radix 10 n = [''0123456789abcdef'' ! n]"
      by (subst toString_radix.simps) simp
    with small_digit [OF True] show ?thesis
      by (simp add: BigInt_digits_def)
  next
    case False
    then have unfold: "toString_radix 10 n =
        toString_radix 10 (n div 10) @ [''0123456789abcdef'' ! (n mod 10)]"
      by (subst toString_radix.simps) simp
    from False have "n div 10 < n" by simp
    from less.IH [OF this] small_digit [of "n mod 10"]
    show ?thesis
      unfolding unfold by (simp add: BigInt_snoc)
  qed
qed

lemma BigInt_append:
  "BigInt_digits (xs @ ys) = BigInt_digits xs * 10 ^ length ys + BigInt_digits ys"
proof (induction ys rule: rev_induct)
  case Nil
  show ?case by (simp add: BigInt_digits_def)
next
  case (snoc c ys)
  have "BigInt_digits (xs @ ys @ [c]) = 10 * BigInt_digits (xs @ ys) + digit_value c"
    using BigInt_snoc [of "xs @ ys" c] by simp
  with snoc show ?case
    by (simp add: BigInt_snoc algebra_simps)
qed

lemma BigInt_all_zeros: "BigInt_digits (replicate k CHR ''0'') = 0"
  using BigInt_zeros [of 0 k] by (simp add: BigInt_digits_def)

lemma BigInt_leading_zeros:
  "BigInt_digits (replicate k CHR ''0'' @ ds) = BigInt_digits ds"
  by (simp add: BigInt_append BigInt_all_zeros)

lemma BigInt_trailing_zeros:
  "BigInt_digits (ds @ replicate k CHR ''0'') = BigInt_digits ds * 10 ^ k"
  by (simp add: BigInt_append BigInt_all_zeros)

lemma zeros_prefix:
  "ds = replicate (length (takeWhile (\<lambda>c. c = CHR ''0'') ds)) CHR ''0'' @
        dropWhile (\<lambda>c. c = CHR ''0'') ds"
proof -
  have "takeWhile (\<lambda>c. c = CHR ''0'') ds =
        replicate (length (takeWhile (\<lambda>c. c = CHR ''0'') ds)) CHR ''0''"
    by (induction ds) simp_all
  then show ?thesis
    by (metis takeWhile_dropWhile_id)
qed

lemma BigInt_dropWhile_zeros:
  "BigInt_digits (dropWhile (\<lambda>c. c = CHR ''0'') ds) = BigInt_digits ds"
  using zeros_prefix [of ds] BigInt_leading_zeros by metis

lemma zeros_suffix:
  "\<exists>k. ds = strip_trailing_zeros ds @ replicate k CHR ''0''"
proof -
  from zeros_prefix [of "rev ds"]
  have "rev (rev ds) =
        rev (replicate (length (takeWhile (\<lambda>c. c = CHR ''0'') (rev ds))) CHR ''0'' @
             dropWhile (\<lambda>c. c = CHR ''0'') (rev ds))"
    by simp
  then have "ds = strip_trailing_zeros ds @
                  replicate (length (takeWhile (\<lambda>c. c = CHR ''0'') (rev ds))) CHR ''0''"
    by (simp add: strip_trailing_zeros_def)
  then show ?thesis ..
qed

lemma point_not_digit: "\<not> isDigit CHR ''.''"
  by (simp add: isDigit_def)

lemma zero_is_digit: "isDigit CHR ''0''"
  by (simp add: isDigit_def)

lemma parseFloat_plain:
  assumes "list_all isDigit whole" and "whole \<noteq> []"
  shows "parseFloat whole = Some (to_double (of_nat (BigInt_digits whole)))"
proof -
  from assms(1) have tw: "takeWhile isDigit whole = whole"
    and dw: "dropWhile isDigit whole = []"
    by (simp_all add: list_all_iff)
  show ?thesis
    unfolding parseFloat_def tw dw using assms(2) by simp
qed

lemma parseFloat_pointed:
  assumes "list_all isDigit whole" and "list_all isDigit fraction" and "whole \<noteq> []"
  shows "parseFloat (whole @ ''.'' @ fraction) =
         Some (to_double (of_nat (BigInt_digits (whole @ fraction)) / 10 ^ length fraction))"
proof -
  from assms(1) have tw: "takeWhile isDigit (whole @ ''.'' @ fraction) = whole"
    by (simp add: list_all_iff takeWhile_tail point_not_digit)
  from assms(1) have dw: "dropWhile isDigit (whole @ ''.'' @ fraction) = ''.'' @ fraction"
    by (simp add: list_all_iff dropWhile_append3 point_not_digit)
  from assms(2) have tf: "takeWhile isDigit fraction = fraction"
    by (simp add: list_all_iff)
  show ?thesis
    unfolding parseFloat_def tw dw using assms(3) by (simp add: tf)
qed

lemma formatUnits_value:
  assumes small: "d \<le> 80" and fits: "raw < 2 ^ 511"
  shows "\<exists>formatted. formatUnits raw d = Inr formatted \<and>
           parseFloat formatted = Some (to_double (real raw / 10 ^ d))"
proof (cases "d = 0")
  case True
  with small fits toString_10 [of raw] show ?thesis
    by (simp add: formatUnits_def parseFloat_plain)
next
  case False
  define padded where "padded = pad_left (d + 1) (toString_radix 10 raw)"
  define whole where "whole = take (length padded - d) padded"
  define fraction where "fraction = drop (length padded - d) padded"
  define W where "W = (if dropWhile (\<lambda>c. c = CHR ''0'') whole = [] then ''0''
                       else dropWhile (\<lambda>c. c = CHR ''0'') whole)"
  define F where "F = (if strip_trailing_zeros fraction = [] then ''0''
                       else strip_trailing_zeros fraction)"
  have formatted: "formatUnits raw d = Inr (W @ ''.'' @ F)"
    using small fits False
    by (simp add: formatUnits_def Let_def padded_def whole_def fraction_def W_def F_def)
  have long: "d < length padded"
    by (simp add: padded_def pad_left_def)
  have digits: "list_all isDigit padded"
    using toString_10 [of raw] by (auto simp: padded_def pad_left_def list_all_iff zero_is_digit)
  have split: "whole @ fraction = padded"
    by (simp add: whole_def fraction_def)
  have len_fraction: "length fraction = d"
    using long by (simp add: fraction_def)
  have value_padded: "BigInt_digits padded = raw"
    using toString_10 [of raw] by (simp add: padded_def pad_left_def BigInt_leading_zeros)
  have digits_whole: "list_all isDigit whole" and digits_fraction: "list_all isDigit fraction"
    using digits split by (metis list_all_append)+
  have W_digits: "list_all isDigit W"
  proof -
    have "set (dropWhile (\<lambda>c. c = CHR ''0'') whole) \<subseteq> set whole"
      by (metis set_dropWhileD subsetI)
    with digits_whole have "list_all isDigit (dropWhile (\<lambda>c. c = CHR ''0'') whole)"
      unfolding list_all_iff by blast
    then show ?thesis
      unfolding W_def by (simp add: zero_is_digit)
  qed
  have W_nonempty: "W \<noteq> []"
    by (simp add: W_def)
  have W_value: "BigInt_digits W = BigInt_digits whole"
  proof (cases "dropWhile (\<lambda>c. c = CHR ''0'') whole = []")
    case True
    then have "BigInt_digits whole = BigInt_digits []"
      by (metis BigInt_dropWhile_zeros)
    moreover from True have "W = replicate 1 CHR ''0''"
      by (simp add: W_def)
    ultimately show ?thesis
      by (simp only: BigInt_all_zeros) (simp add: BigInt_digits_def)
  next
    case False
    then show ?thesis
      unfolding W_def by (simp only: if_False BigInt_dropWhile_zeros)
  qed
  obtain k where suffix: "fraction = strip_trailing_zeros fraction @ replicate k CHR ''0''"
    using zeros_suffix by blast
  have F_digits: "list_all isDigit F"
  proof -
    have "set (strip_trailing_zeros fraction) \<subseteq> set fraction"
      by (metis suffix set_append Un_upper1)
    with digits_fraction show ?thesis
      by (auto simp: F_def list_all_iff zero_is_digit)
  qed
  have F_value: "real (BigInt_digits F) / 10 ^ length F = real (BigInt_digits fraction) / 10 ^ d"
  proof (cases "strip_trailing_zeros fraction = []")
    case True
    with suffix have "fraction = replicate k CHR ''0''" by simp
    then have "BigInt_digits fraction = 0"
      by (simp add: BigInt_all_zeros)
    moreover from True have "BigInt_digits F = 0"
      using BigInt_all_zeros [of 1] by (simp add: F_def)
    ultimately show ?thesis by simp
  next
    case False
    then have F: "F = strip_trailing_zeros fraction" by (simp add: F_def)
    from suffix have "BigInt_digits fraction = BigInt_digits F * 10 ^ k"
      unfolding F by (metis BigInt_trailing_zeros)
    moreover from suffix len_fraction have "d = length F + k"
      unfolding F by (metis length_append length_replicate)
    ultimately show ?thesis
      by (simp add: power_add)
  qed
  have "real (BigInt_digits (W @ F)) / 10 ^ length F =
        real (BigInt_digits whole) + real (BigInt_digits F) / 10 ^ length F"
    by (simp add: BigInt_append W_value add_divide_distrib)
  also have "\<dots> = real (BigInt_digits whole) + real (BigInt_digits fraction) / 10 ^ d"
    by (simp add: F_value)
  also have "\<dots> = real (BigInt_digits (whole @ fraction)) / 10 ^ d"
    by (simp add: BigInt_append len_fraction add_divide_distrib)
  also have "\<dots> = real raw / 10 ^ d"
    by (simp add: split value_padded)
  finally have "real (BigInt_digits (W @ F)) / 10 ^ length F = real raw / 10 ^ d" .
  with parseFloat_pointed [OF W_digits F_digits W_nonempty] formatted
  show ?thesis
    by simp
qed

lemma scale2_pos: "0 < scale2 k"
  by (simp add: scale2_def)

lemma scale2_mono:
  assumes "k \<le> j"
  shows "scale2 k \<le> scale2 j"
proof -
  have eq: "\<And>i. scale2 i = 2 powi i"
    by (simp add: scale2_def power_int_def power_one_over [symmetric] inverse_eq_divide)
  from assms show ?thesis
    unfolding eq by (intro power_int_increasing) simp_all
qed

lemma floor_log2_below:
  assumes "0 < x"
  shows "scale2 (floor_log2 x) \<le> x"
proof (cases "1 \<le> x")
  case True
  then have pos: "0 < \<lfloor>x\<rfloor>" by simp
  from bitlen_bounds [OF pos] have "2 ^ nat (bitlen \<lfloor>x\<rfloor> - 1) \<le> \<lfloor>x\<rfloor>" by simp
  then have "(2::real) ^ nat (bitlen \<lfloor>x\<rfloor> - 1) \<le> of_int \<lfloor>x\<rfloor>"
    by (metis of_int_le_iff of_int_numeral of_int_power)
  also have "\<dots> \<le> x" by simp
  finally have "(2::real) ^ nat (bitlen \<lfloor>x\<rfloor> - 1) \<le> x" .
  moreover from pos have "1 \<le> bitlen \<lfloor>x\<rfloor>"
    by (simp add: bitlen_alt_def)
  ultimately show ?thesis
    using True by (simp add: floor_log2_def scale2_def)
next
  case False
  with assms have "1 < 1 / x" by simp
  then have "1 < \<lceil>1 / x\<rceil>" by linarith
  then have pos: "0 < \<lceil>1 / x\<rceil> - 1" by simp
  define b where "b = bitlen (\<lceil>1 / x\<rceil> - 1)"
  from pos have b1: "1 \<le> b"
    by (simp add: b_def bitlen_alt_def)
  from bitlen_bounds [OF pos] have "\<lceil>1 / x\<rceil> - 1 < 2 ^ nat b"
    by (simp add: b_def)
  then have "\<lceil>1 / x\<rceil> \<le> 2 ^ nat b" by simp
  then have "of_int \<lceil>1 / x\<rceil> \<le> (2::real) ^ nat b"
    by (metis of_int_le_iff of_int_numeral of_int_power)
  moreover have "1 / x \<le> of_int \<lceil>1 / x\<rceil>" by simp
  ultimately have "1 / x \<le> 2 ^ nat b" by linarith
  with assms have "1 / 2 ^ nat b \<le> x"
    by (simp add: field_simps)
  with False b1 show ?thesis
    by (simp add: floor_log2_def scale2_def b_def)
qed

lemma round_half_even_ge: "\<lfloor>x\<rfloor> \<le> round_half_even x"
  by (simp add: round_half_even_def Let_def)

lemma to_double_pos:
  assumes "1 / 10 ^ 80 \<le> x"
  shows "0 < to_double x"
proof -
  have "(0::real) < 1 / 10 ^ 80" by simp
  with assms have pos: "0 < x" by linarith
  define k where "k = max (floor_log2 x - 52) (- 1074)"
  have "scale2 (floor_log2 x - 52) \<le> x"
    using scale2_mono [of "floor_log2 x - 52" "floor_log2 x"] floor_log2_below [OF pos] by simp
  moreover have "scale2 (- 1074) \<le> x"
  proof -
    have "scale2 (- 1074) \<le> 1 / 10 ^ 80"
      by (simp add: scale2_def)
    with assms show ?thesis by linarith
  qed
  ultimately have "scale2 k \<le> x"
    by (simp add: k_def max_def)
  with scale2_pos [of k] have "1 \<le> x / scale2 k"
    by (simp add: field_simps)
  then have "1 \<le> \<lfloor>x / scale2 k\<rfloor>" by simp
  with round_half_even_ge [of "x / scale2 k"] have "0 < round_half_even (x / scale2 k)"
    by linarith
  with scale2_pos [of k] have "0 < of_int (round_half_even (x / scale2 k)) * scale2 k"
    by simp
  with pos show ?thesis
    by (simp add: to_double_def k_def Let_def)
qed

lemma digit_not_point: "isDigit c \<Longrightarrow> c \<noteq> CHR ''.''"
  by (auto simp: isDigit_def)

lemma fraction_digits_pointed:
  assumes "CHR ''.'' \<notin> set whole"
  shows "fraction_digits (whole @ ''.'' @ fraction) = length fraction"
proof -
  from assms have "dropWhile (\<lambda>c. c \<noteq> CHR ''.'') (whole @ ''.'' @ fraction) = ''.'' @ fraction"
    by (auto simp: dropWhile_append3)
  then show ?thesis
    by (simp add: fraction_digits_def)
qed

lemma dropWhile_all: "(\<And>x. x \<in> set xs \<Longrightarrow> P x) \<Longrightarrow> dropWhile P xs = []"
  by (induction xs) simp_all

lemma fraction_digits_plain:
  assumes "CHR ''.'' \<notin> set whole"
  shows "fraction_digits whole = 0"
proof -
  have "dropWhile (\<lambda>c. c \<noteq> CHR ''.'') whole = []"
    using assms by (intro dropWhile_all) auto
  then have "drop 1 (dropWhile (\<lambda>c. c \<noteq> CHR ''.'') whole) = []"
    by (simp only: drop_Nil)
  then show ?thesis
    by (simp only: fraction_digits_def list.size)
qed

lemma padded_digits:
  "list_all isDigit (pad_left n (toString_radix 10 v)) \<and>
   n \<le> length (pad_left n (toString_radix 10 v))"
  using toString_10 [of v] by (auto simp: pad_left_def list_all_iff zero_is_digit)

lemma toFixed_fraction_digits:
  assumes "0 < f"
  shows "fraction_digits (toFixed x f) = f"
proof -
  define m where "m = pad_left (f + 1) (toString_radix 10 (nat \<lfloor>x * 10 ^ f + 1 / 2\<rfloor>))"
  have digits: "list_all isDigit m" and long: "f + 1 \<le> length m"
    using padded_digits by (simp_all add: m_def)
  have "set (take (length m - f) m) \<subseteq> set m"
    by (rule set_take_subset)
  with digits have "CHR ''.'' \<notin> set (take (length m - f) m)"
    using digit_not_point unfolding list_all_iff by blast
  from fraction_digits_pointed [OF this, of "drop (length m - f) m"] long
  have "fraction_digits (take (length m - f) m @ ''.'' @ drop (length m - f) m) = f"
    by simp
  with assms show ?thesis
    by (simp add: toFixed_def Let_def m_def)
qed

lemma set_group_reversed: "set (group_reversed ds) \<subseteq> insert CHR '','' (set ds)"
  by (induction ds rule: group_reversed.induct) auto

lemma group_thousands_no_point:
  assumes "list_all isDigit ds"
  shows "CHR ''.'' \<notin> set (group_thousands ds)"
proof -
  have "set (group_thousands ds) \<subseteq> insert CHR '','' (set ds)"
    using set_group_reversed [of "rev ds"] by (simp add: group_thousands_def)
  moreover from assms have "CHR ''.'' \<notin> set ds"
    using digit_not_point unfolding list_all_iff by blast
  ultimately show ?thesis by auto
qed

lemma strip_trailing_zeros_length: "length (strip_trailing_zeros ds) \<le> length ds"
  using length_dropWhile_le [of _ "rev ds"] by (simp add: strip_trailing_zeros_def)

lemma toLocaleString_fraction_digits:
  "fraction_digits (toLocaleString_en_US x f) \<le> f"
proof -
  define m where
    "m = pad_left (f + 1) (toString_radix 10 (nat \<lfloor>shortest_decimal x * 10 ^ f + 1 / 2\<rfloor>))"
  define integer where "integer = take (length m - f) m"
  define fraction where "fraction = strip_trailing_zeros (drop (length m - f) m)"
  have digits: "list_all isDigit m" and long: "f + 1 \<le> length m"
    using padded_digits by (simp_all add: m_def)
  have "set integer \<subseteq> set m"
    unfolding integer_def by (rule set_take_subset)
  with digits have "list_all isDigit integer"
    unfolding list_all_iff by blast
  then have no_point: "CHR ''.'' \<notin> set (group_thousands integer)"
    by (rule group_thousands_no_point)
  have short: "length fraction \<le> f"
    using strip_trailing_zeros_length [of "drop (length m - f) m"] long
    by (simp add: fraction_def)
  have shape: "toLocaleString_en_US x f =
      group_thousands integer @ (if fraction = [] then [] else ''.'' @ fraction)"
    by (simp add: toLocaleString_en_US_def Let_def m_def integer_def fraction_def)
  show ?thesis
  proof (cases "fraction = []")
    case True
    with no_point show ?thesis
      unfolding shape by (simp add: fraction_digits_plain)
  next
    case False
    with fraction_digits_pointed [OF no_point, of fraction] short show ?thesis
      unfolding shape by simp
  qed
qed

lemma display_of_loaded_token:
  assumes small: "TokenInfo.decimals ti \<le> 80" and fits: "raw < 2 ^ 256"
  shows "displayed_balance (Some ti) raw =
     (let num = to_double (real raw / 10 ^ TokenInfo.decimals ti)
      in if num = 0 then ''0.00''
         else if num < to_double (1 / 10000) then ''< 0.0001''
         else if num < 1 then toFixed num 4
         else toLocaleString_en_US num 6)"
proof -
  from fits have "raw < 2 ^ 511"
    by (rule less_le_trans) simp
  from formatUnits_value [OF small this]
  obtain formatted where "formatUnits raw (TokenInfo.decimals ti) = Inr formatted"
    and "parseFloat formatted = Some (to_double (real raw / 10 ^ TokenInfo.decimals ti))"
    by blast
  then show ?thesis
    by (simp add: displayed_balance_def useERC20Balance_balanceFormatted_def
        useERC20Balance_balanceDisplay_def Let_def)
qed

lemma num_zero_iff:
  assumes small: "d \<le> 80"
  shows "to_double (real raw / 10 ^ d) = 0 \<longleftrightarrow> raw = 0"
proof
  assume zero: "to_double (real raw / 10 ^ d) = 0"
  show "raw = 0"
  proof (rule ccontr)
    assume "raw \<noteq> 0"
    then have "1 \<le> real raw" by simp
    moreover from small have "(10::real) ^ d \<le> 10 ^ 80"
      by (intro power_increasing) simp_all
    ultimately have "1 / 10 ^ 80 \<le> real raw / 10 ^ d"
      by (intro frac_le) simp_all
    from to_double_pos [OF this] zero show False by simp
  qed
next
  assume "raw = 0"
  then show "to_double (real raw / 10 ^ d) = 0"
    by (simp add: to_double_def)
qed

lemma bitlen_9999: "bitlen 9999 = 14"
  by (simp add: compute_bitlen)

lemma bitlen_19999: "bitlen 19999 = 15"
  by (simp add: compute_bitlen)

lemma bitlen_1: "bitlen 1 = 1"
  by (simp add: compute_bitlen)

lemma bitlen_1234: "bitlen 1234 = 11"
  by (simp add: compute_bitlen)

lemma double_0_0001: "to_double (1 / 10000) = 7378697629483821 / 73786976294838206464"
  by (simp add: to_double_def floor_log2_def bitlen_9999 scale2_def round_half_even_def Let_def)

lemma double_0_00005: "to_double (1 / 20000) = 7378697629483821 / 147573952589676412928"
  by (simp add: to_double_def floor_log2_def bitlen_19999 scale2_def round_half_even_def Let_def)

lemma double_half: "to_double (1 / 2) = 1 / 2"
  by (simp add: to_double_def floor_log2_def bitlen_1 scale2_def round_half_even_def Let_def)

lemma double_1234_5: "to_double (2469 / 2) = 2469 / 2"
  by (simp add: to_double_def floor_log2_def bitlen_1234 scale2_def round_half_even_def Let_def)

lemma double_just_below_1: "to_double (999999999999999999 / 1000000000000000000) = 1"
  by (simp add: to_double_def floor_log2_def bitlen_1 scale2_def round_half_even_def Let_def)

lemma dec_5000: "toString_radix 10 5000 = ''5000''"
  by (simp add: toString_radix.simps)

lemma dec_1234500000: "toString_radix 10 1234500000 = ''1234500000''"
  by (simp add: toString_radix.simps)

lemma dec_1000000: "toString_radix 10 1000000 = ''1000000''"
  by (simp add: toString_radix.simps)

lemma toFixed_half: "toFixed (1 / 2) 4 = ''0.5000''"
  by (simp add: toFixed_def dec_5000 pad_left_def Let_def)

lemma dec_Suc_0: "toString_radix 10 (Suc 0) = ''1''"
  by (simp add: toString_radix.simps)

lemma dec_1234: "toString_radix 10 1234 = ''1234''"
  by (simp add: toString_radix.simps)

lemma dec_999: "toString_radix 10 999 = ''999''"
  by (simp add: toString_radix.simps)

lemma dec_1000000000: "toString_radix 10 1000000000 = ''1000000000''"
  by (simp add: toString_radix.simps)

lemmas evaluate_double = scale10_def to_double_def floor_log2_def compute_bitlen scale2_def
  round_half_even_def Let_def

lemma double_999_9999995:
  "to_double (1999999999 / 2000000) = 8796093017809953 / 8796093022208"
  by (simp add: evaluate_double)

lemma shortest_decimal_1: "shortest_decimal 1 = 1"
  unfolding shortest_decimal_def
  apply (simp add: decimal_exponent_def dec_Suc_0)
  apply (subst shortest_decimal_from.simps, simp add: evaluate_double)
  done

lemma shortest_decimal_1234_5: "shortest_decimal (2469 / 2) = 2469 / 2"
  unfolding shortest_decimal_def
  apply (simp add: decimal_exponent_def dec_1234)
  apply (subst shortest_decimal_from.simps, simp add: evaluate_double)
  apply (subst shortest_decimal_from.simps, simp add: evaluate_double)
  apply (subst shortest_decimal_from.simps, simp add: evaluate_double)
  apply (subst shortest_decimal_from.simps, simp add: evaluate_double)
  apply (subst shortest_decimal_from.simps, simp add: evaluate_double)
  done

lemma shortest_decimal_999_9999995:
  "shortest_decimal (8796093017809953 / 8796093022208) = 1999999999 / 2000000"
  unfolding shortest_decimal_def
  apply (simp add: decimal_exponent_def dec_999)
  apply (subst shortest_decimal_from.simps, simp add: evaluate_double)
  apply (subst shortest_decimal_from.simps, simp add: evaluate_double)
  apply (subst shortest_decimal_from.simps, simp add: evaluate_double)
  apply (subst shortest_decimal_from.simps, simp add: evaluate_double)
  apply (subst shortest_decimal_from.simps, simp add: evaluate_double)
  apply (subst shortest_decimal_from.simps, simp add: evaluate_double)
  apply (subst shortest_decimal_from.simps, simp add: evaluate_double)
  apply (subst shortest_decimal_from.simps, simp add: evaluate_double)
  apply (subst shortest_decimal_from.simps, simp add: evaluate_double)
  apply (subst shortest_decimal_from.simps, simp add: evaluate_double)
  done

lemma toLocaleString_1234_5: "toLocaleString_en_US (2469 / 2) 6 = ''1,234.5''"
  by (simp add: toLocaleString_en_US_def shortest_decimal_1234_5 dec_1234500000 pad_left_def Let_def
      strip_trailing_zeros_def group_thousands_def)

lemma toLocaleString_1: "toLocaleString_en_US 1 6 = ''1''"
  by (simp add: toLocaleString_en_US_def shortest_decimal_1 dec_1000000 pad_left_def Let_def
      strip_trailing_zeros_def group_thousands_def)

lemma toLocaleString_999_9999995:
  "toLocaleString_en_US (8796093017809953 / 8796093022208) 6 = ''1,000''"
  by (simp add: toLocaleString_en_US_def shortest_decimal_999_9999995 dec_1000000000 pad_left_def
      Let_def strip_trailing_zeros_def group_thousands_def)

lemma parseFloat_0: "parseFloat ''0'' = Some 0"
  by (simp add: parseFloat_def isDigit_def BigInt_digits_def digit_value_def to_double_def)

lemma display_of_unloaded_token: "displayed_balance None raw = ''0.00''"
  by (simp add: displayed_balance_def useERC20Balance_balanceDisplay_def)

lemma display_of_refused_decimals:
  assumes "80 < TokenInfo.decimals ti"
  shows "displayed_balance (Some ti) raw = ''0.00''"
  using assms
  by (simp add: displayed_balance_def useERC20Balance_balanceDisplay_def
      useERC20Balance_balanceFormatted_def formatUnits_def parseFloat_0)

subsection \<open>The reported decimals\<close>

text \<open>
  C10. The \<open>decimals\<close> field returned by the balance query is 18 while the token's metadata
  is not loaded, and 18 when the fetched decimals value is 0; it equals the fetched value
  exactly when that value is not 0.
\<close>

theorem C10_reported_decimals:
  "useERC20Balance_decimals None = 18 \<and>
   (TokenInfo.decimals ti = 0 \<longrightarrow> useERC20Balance_decimals (Some ti) = 18) \<and>
   (useERC20Balance_decimals (Some ti) = TokenInfo.decimals ti) = (TokenInfo.decimals ti \<noteq> 0)"
  by (simp add: useERC20Balance_decimals_def or_number_def)

theorem C10_reported_decimals_witness:
  "useERC20Balance_decimals None = 18 \<and>
   useERC20Balance_decimals
     (Some \<lparr>name = ''Zero'', symbol = ''ZRO'', decimals = 0, address = ''0xZ''\<rparr>) = 18 \<and>
   useERC20Balance_decimals
     (Some \<lparr>name = ''USD Coin'', symbol = ''USDC'', decimals = 6, address = ''0xUSDC''\<rparr>) = 6"
  using C10_reported_decimals
          [of "\<lparr>name = ''Zero'', symbol = ''ZRO'', decimals = 0, address = ''0xZ''\<rparr>"]
        C10_reported_decimals
          [of "\<lparr>name = ''USD Coin'', symbol = ''USDC'', decimals = 6, address = ''0xUSDC''\<rparr>"]
  by simp

subsection \<open>The wallet session\<close>

text \<open>
  C3 fails on the code. The wallet refuses the switch request with its code 4902 (the
  chain is not known to the wallet) and \<open>SUPPORTED_NETWORKS\<close> has no entry for the
  target chain 999999. What \<open>switchNetwork\<close> catches is not the wallet's error but the
  error \<open>provider.send\<close> made from it, whose code is the string \<open>UNKNOWN_ERROR\<close>. The
  test \<open>switchError.code === 4902\<close> is false for it, so the branch that throws
  "Network 999999 is not configured" is not entered: the provider's error is thrown
  again. In general, whenever the wallet refuses the switch request, with whatever code
  and for whatever target chain, \<open>switchNetwork\<close> throws the provider's error, whose
  code is a string, leaves the cells as they were, and the only request it sent is the
  switch request: no \<open>wallet_addEthereumChain\<close> request is sent, for a chain without
  an entry as for one with an entry.
\<close>

theorem C3_switchNetwork_rethrows_provider_error:
  assumes "provider s \<noteq> None"
    and "wallet_switchEthereumChain w (''0x'' @ toString_radix 16 targetChainId) = Inl walletError"
  shows "(\<exists>providerError c.
            switchNetwork w targetChainId s =
              (Inl providerError, s,
               [Send_wallet_switchEthereumChain (''0x'' @ toString_radix 16 targetChainId)]) \<and>
            code providerError = Some (StrCode c)) \<and>
         (code walletError = Some (NumCode 4902) \<longrightarrow>
            switchNetwork w targetChainId s =
              (Inl (JsError (Some (StrCode ''UNKNOWN_ERROR'')) ''could not coalesce error''), s,
               [Send_wallet_switchEthereumChain (''0x'' @ toString_radix 16 targetChainId)])) \<and>
         fst (switchNetwork w targetChainId s) \<noteq>
           Inl (new_Error (''Network '' @ toString_radix 10 targetChainId @ '' is not configured'')) \<and>
         \<not> list_ex is_addEthereumChain (snd (snd (switchNetwork w targetChainId s)))"
proof -
  have run: "switchNetwork w targetChainId s =
           (Inl (getRpcError walletError), s,
            [Send_wallet_switchEthereumChain (''0x'' @ toString_radix 16 targetChainId)])"
    using assms
    by (simp add: switchNetwork_def try_catch_def await_def throw_def BrowserProvider_send_def
        getRpcError_code)
  have "\<exists>c. code (getRpcError walletError) = Some (StrCode c)"
    by (simp add: getRpcError_def)
  then show ?thesis
    unfolding run by (auto simp: is_addEthereumChain_def getRpcError_def new_Error_def)
qed

theorem C3_switchNetwork_rethrows_provider_error_witness:
  "code (JsError (Some (NumCode 4902)) ''Unrecognized chain ID'') = Some (NumCode 4902) \<and>
   SUPPORTED_NETWORKS 999999 = None \<and>
   switchNetwork
     \<lparr>eth_requestAccounts = Inr [''0xAAA''], getNetwork = Inr 11155111,
      getSigner = Inr (JsonRpcSigner ''0xAAA''),
      wallet_switchEthereumChain = (\<lambda>h. Inl (JsError (Some (NumCode 4902)) ''Unrecognized chain ID'')),
      wallet_addEthereumChain = (\<lambda>p. Inr ())\<rparr>
     999999
     \<lparr>provider = Some BrowserProvider, signer = Some (JsonRpcSigner ''0xAAA''),
      account = Some ''0xAAA'', chainId = Some 11155111, network = SUPPORTED_NETWORKS 11155111\<rparr>
   = (Inl (JsError (Some (StrCode ''UNKNOWN_ERROR'')) ''could not coalesce error''),
      \<lparr>provider = Some BrowserProvider, signer = Some (JsonRpcSigner ''0xAAA''),
       account = Some ''0xAAA'', chainId = Some 11155111, network = SUPPORTED_NETWORKS 11155111\<rparr>,
      [Send_wallet_switchEthereumChain ''0xf423f''])"
proof -
  have hex: "toString_radix 16 999999 = ''f423f''"
    by (simp add: toString_radix.simps)
  have absent: "SUPPORTED_NETWORKS 999999 = None"
    by (simp add: SUPPORTED_NETWORKS_def)
  show ?thesis
    using C3_switchNetwork_rethrows_provider_error
      [of "\<lparr>provider = Some BrowserProvider, signer = Some (JsonRpcSigner ''0xAAA''),
            account = Some ''0xAAA'', chainId = Some 11155111, network = SUPPORTED_NETWORKS 11155111\<rparr>"
          "\<lparr>eth_requestAccounts = Inr [''0xAAA''], getNetwork = Inr 11155111,
            getSigner = Inr (JsonRpcSigner ''0xAAA''),
            wallet_switchEthereumChain = (\<lambda>h. Inl (JsError (Some (NumCode 4902)) ''Unrecognized chain ID'')),
            wallet_addEthereumChain = (\<lambda>p. Inr ())\<rparr>"
          999999
          "JsError (Some (NumCode 4902)) ''Unrecognized chain ID''"]
    by (simp add: hex absent)
qed


text \<open>
  C2 fails on the code. After a successful \<open>connectWallet\<close>, an \<open>accountsChanged\<close> event
  with the empty list clears the account cell only: the signer cell keeps the signer of
  the account that is gone, so the session has a signer and no account.
  \<open>disconnectWallet\<close> clears both.
\<close>

theorem C2_signer_kept_after_empty_accountsChanged:
  "(case connectWallet
          \<lparr>eth_requestAccounts = Inr [''0xAAA''], getNetwork = Inr 11155111,
           getSigner = Inr (JsonRpcSigner ''0xAAA''),
           wallet_switchEthereumChain = (\<lambda>h. Inr ()),
           wallet_addEthereumChain = (\<lambda>p. Inr ())\<rparr>
          \<lparr>provider = Some BrowserProvider, signer = None, account = None,
           chainId = None, network = None\<rparr> of
      (r, session, requests) \<Rightarrow>
        r = Inr () \<and>
        account session = Some ''0xAAA'' \<and>
        signer session = Some (JsonRpcSigner ''0xAAA'') \<and>
        account (handleAccountsChanged [] session) = None \<and>
        signer (handleAccountsChanged [] session) = Some (JsonRpcSigner ''0xAAA'') \<and>
        signer (disconnectWallet session) = None)"
  by (simp add: connectWallet_def try_catch_def then_do_def await_def set_cells_def
      updateNetworkInfo_def handleAccountsChanged_def disconnectWallet_def first_element_def
      truthy_def BrowserProvider_send_def)

subsection \<open>The vault client\<close>



text \<open>
  C4 fails on the code. \<open>getAllBalances\<close> is asked for \<open>0xUSDC\<close> and \<open>0xDAI\<close> on a
  page whose wallet has granted an account; the vault's query for \<open>0xUSDC\<close> answers
  1500000 and the one for \<open>0xDAI\<close> reverts. The result is the empty list: the balance
  of \<open>0xUSDC\<close> is not reported. The queries run under one \<open>Promise.all\<close> inside one
  \<open>try\<close>, whose handler returns the empty list for the whole batch.
  \<open>getUserBalance\<close>, in the same session, reports 1500000 for \<open>0xUSDC\<close> and 0 for
  \<open>0xDAI\<close>: there the failure of a token is caught for that token.
\<close>

theorem C4_one_failure_empties_batch:
  "run_vault mounted_history = mounted_vault \<and>
   vault_getUserBalance dai_failing_chain ''0xAAA'' ''0xUSDC'' = Inr 1500000 \<and>
   getAllBalances dai_failing_chain [''0xUSDC'', ''0xDAI''] mounted_vault =
     (Inr [], mounted_vault,
      [Call_getUserBalance ''0xAAA'' ''0xUSDC'', Call_getUserBalance ''0xAAA'' ''0xDAI'']) \<and>
   getUserBalance dai_failing_chain ''0xUSDC'' mounted_vault =
     (Inr 1500000, mounted_vault, [Call_getUserBalance ''0xAAA'' ''0xUSDC'']) \<and>
   getUserBalance dai_failing_chain ''0xDAI'' mounted_vault =
     (Inr 0, mounted_vault, [Call_getUserBalance ''0xAAA'' ''0xDAI''])"
proof -
  have batch: "getAllBalances dai_failing_chain [''0xUSDC'', ''0xDAI''] mounted_vault =
     (Inr [], mounted_vault,
      [Call_getUserBalance ''0xAAA'' ''0xUSDC'', Call_getUserBalance ''0xAAA'' ''0xDAI''])"
    by (simp add: getAllBalances_connected mounted_vault_def truthy_def dai_failing_chain_def
        usdc_chain_def)
  have single: "getUserBalance dai_failing_chain ''0xUSDC'' mounted_vault =
     (Inr 1500000, mounted_vault, [Call_getUserBalance ''0xAAA'' ''0xUSDC''])"
    "getUserBalance dai_failing_chain ''0xDAI'' mounted_vault =
     (Inr 0, mounted_vault, [Call_getUserBalance ''0xAAA'' ''0xDAI''])"
    by (simp_all add: getUserBalance_def try_catch_def await_def return_def mounted_vault_def
        truthy_def dai_failing_chain_def usdc_chain_def)
  from batch single show ?thesis
    by (simp add: mounted_vault_reached) (simp add: dai_failing_chain_def usdc_chain_def)
qed

text \<open>
  C6. In every run of \<open>deposit\<close>: a call of the vault's \<open>deposit\<close> is preceded by exactly
  the \<open>approve\<close> call for the same token and amount and the wait for its inclusion, both
  of which succeeded; when the allowance phase fails (the \<open>approve\<close> call is rejected, or
  waiting for its inclusion throws), \<open>deposit\<close> throws and the vault's \<open>deposit\<close> is not
  called; and \<open>deposit\<close> returns normally only when the four steps (approve, wait,
  deposit, wait) have all succeeded, in that order.
\<close>

theorem C6_deposit_phase_order:
  assumes run: "deposit ch token amount s = (r, s', calls)"
  shows
   "(\<forall>pre t a post. calls = pre @ Call_deposit t a # post \<longrightarrow>
        t = token \<and> parseUnits amount 18 = Inr a \<and>
        (\<exists>approveTx approved.
            token_approve ch token (vaultAddress s) a = Inr approveTx \<and>
            wait approveTx = Inr approved \<and>
            pre = [Call_approve token (vaultAddress s) a, Call_wait (hash approveTx)])) \<and>
    (\<forall>a. parseUnits amount 18 = Inr a \<and> approve_phase_failed ch token (vaultAddress s) a \<longrightarrow>
        isl r \<and> \<not> list_ex is_deposit_call calls) \<and>
    (r = Inr () \<longrightarrow>
        (\<exists>a approveTx approved depositTx deposited.
            parseUnits amount 18 = Inr a \<and>
            token_approve ch token (vaultAddress s) a = Inr approveTx \<and>
            wait approveTx = Inr approved \<and>
            vault_deposit ch token a = Inr depositTx \<and>
            wait depositTx = Inr deposited \<and>
            calls = [Call_approve token (vaultAddress s) a, Call_wait (hash approveTx),
                     Call_deposit token a, Call_wait (hash depositTx)]))"
proof (intro conjI allI impI)
  fix pre t a post
  assume here: "calls = pre @ Call_deposit t a # post"
  from deposit_call_position [OF run here]
  show "t = token" and "parseUnits amount 18 = Inr a"
    and "\<exists>approveTx approved.
            token_approve ch token (vaultAddress s) a = Inr approveTx \<and>
            wait approveTx = Inr approved \<and>
            pre = [Call_approve token (vaultAddress s) a, Call_wait (hash approveTx)]"
    by simp_all
next
  fix a
  assume "parseUnits amount 18 = Inr a \<and> approve_phase_failed ch token (vaultAddress s) a"
  with deposit_after_failed_approve [OF run]
  show "isl r" and "\<not> list_ex is_deposit_call calls"
    by simp_all
next
  assume "r = Inr ()"
  with run deposit_success
  show "\<exists>a approveTx approved depositTx deposited.
            parseUnits amount 18 = Inr a \<and>
            token_approve ch token (vaultAddress s) a = Inr approveTx \<and>
            wait approveTx = Inr approved \<and>
            vault_deposit ch token a = Inr depositTx \<and>
            wait depositTx = Inr deposited \<and>
            calls = [Call_approve token (vaultAddress s) a, Call_wait (hash approveTx),
                     Call_deposit token a, Call_wait (hash depositTx)]"
    by simp
qed

theorem C6_deposit_phase_order_witness:
  "deposit usdc_chain ''0xUSDC'' ''10'' connected_vault =
     (Inr (), connected_vault\<lparr>loading := False\<rparr>,
      [Call_approve ''0xUSDC'' ''0xVAULT'' 10000000000000000000, Call_wait ''0xa1'',
       Call_deposit ''0xUSDC'' 10000000000000000000, Call_wait ''0xd1'']) \<and>
   isl (fst (deposit approve_rejected_chain ''0xUSDC'' ''10'' connected_vault)) \<and>
   \<not> list_ex is_deposit_call
       (snd (snd (deposit approve_rejected_chain ''0xUSDC'' ''10'' connected_vault)))"
proof -
  have failed: "parseUnits ''10'' 18 = Inr 10000000000000000000 \<and>
                approve_phase_failed approve_rejected_chain ''0xUSDC''
                  (vaultAddress connected_vault) 10000000000000000000"
    by (simp add: parseUnits_10_at_18 approve_phase_failed_def approve_rejected_chain_def)
  from C6_deposit_phase_order [OF deposit_rejected_example] failed
  have "isl (Inl (JsError (Some (StrCode ''ACTION_REJECTED'')) ''user rejected action'') :: js_error + unit) \<and>
        \<not> list_ex is_deposit_call [Call_approve ''0xUSDC'' ''0xVAULT'' 10000000000000000000]"
    by blast
  then show ?thesis
    by (simp add: deposit_usdc_example deposit_rejected_example)
qed

text \<open>
  C9. While no account is connected or the vault contract is not initialised,
  \<open>getUserBalance\<close> returns 0 and \<open>getAllBalances\<close> returns the empty list; neither throws
  and neither issues a call.
\<close>

theorem C9_balances_when_disconnected:
  assumes "vaultContract s = None \<or> \<not> truthy (account s)"
  shows "getUserBalance ch token s = (Inr 0, s, []) \<and>
         getAllBalances ch tokenAddresses s = (Inr [], s, [])"
  using assms by (auto simp: getUserBalance_def getAllBalances_def return_def)

theorem C9_balances_when_disconnected_witness:
  "getUserBalance usdc_chain ''0xUSDC'' (connected_vault\<lparr>account := None\<rparr>) =
     (Inr 0, connected_vault\<lparr>account := None\<rparr>, []) \<and>
   getAllBalances usdc_chain [''0xUSDC'', ''0xDAI''] (connected_vault\<lparr>account := None\<rparr>) =
     (Inr [], connected_vault\<lparr>account := None\<rparr>, []) \<and>
   getUserBalance usdc_chain ''0xUSDC'' (connected_vault\<lparr>vaultContract := None\<rparr>) =
     (Inr 0, connected_vault\<lparr>vaultContract := None\<rparr>, [])"
  using C9_balances_when_disconnected [of "connected_vault\<lparr>account := None\<rparr>" usdc_chain "''0xUSDC''" "[''0xUSDC'', ''0xDAI'']"]
        C9_balances_when_disconnected [of "connected_vault\<lparr>vaultContract := None\<rparr>" usdc_chain "''0xUSDC''" "[]"]
  by (simp add: truthy_def)

subsection \<open>The balance hook under overlapping fetches\<close>



subsection \<open>The transfer with gas estimation\<close>

text \<open>
  C7. When the wallet is present, the signer is granted and the gas estimation of the
  transfer fails, \<open>handleTransfer\<close> stops there: it stores the error message, leaves no
  transaction hash, and the calls it issued are the signer request and the estimation
  only; no submission is among them. In every run, a submission is preceded by exactly
  the signer request and the estimation for the same recipient and amount, which
  succeeded, and its gas limit is the estimate times 120 divided by 100, rounded down.
  The amount "0.1" parses at every number of decimals from 1 to 80, so the estimation
  is reached once the signer is granted.
\<close>

theorem C7_no_blind_submission:
  "(window_ethereum ch \<and> app_getSigner ch = Inr sg \<and>
    parseUnits ''0.1'' (or_number (map_option TokenData.decimals (tokenData s)) 18) = Inr amount \<and>
    transfer_estimateGas ch recipient amount = Inl err \<longrightarrow>
      handleTransfer ch s =
        (Inr (),
         s\<lparr>AppState.loading := False, AppState.error := Some (transfer_error_message err),
           txHash := None\<rparr>,
         [App_getSigner, App_estimateGas recipient amount]) \<and>
      \<not> list_ex is_submission (snd (snd (handleTransfer ch s)))) \<and>
   (\<forall>pre to a g post.
      snd (snd (handleTransfer ch s)) = pre @ App_transfer to a g # post \<longrightarrow>
        (\<exists>estimatedGas. transfer_estimateGas ch to a = Inr estimatedGas \<and>
           g = estimatedGas * 120 div 100 \<and> pre = [App_getSigner, App_estimateGas to a])) \<and>
   (or_number (map_option TokenData.decimals (tokenData s)) 18 \<le> 80 \<longrightarrow>
      (\<exists>parsed. parseUnits ''0.1'' (or_number (map_option TokenData.decimals (tokenData s)) 18)
                  = Inr parsed))"
proof (intro conjI impI allI)
  assume h: "window_ethereum ch \<and> app_getSigner ch = Inr sg \<and>
    parseUnits ''0.1'' (or_number (map_option TokenData.decimals (tokenData s)) 18) = Inr amount \<and>
    transfer_estimateGas ch recipient amount = Inl err"
  then show run: "handleTransfer ch s =
        (Inr (),
         s\<lparr>AppState.loading := False, AppState.error := Some (transfer_error_message err),
           txHash := None\<rparr>,
         [App_getSigner, App_estimateGas recipient amount])"
    by (simp add: handleTransfer_unfold)
  show "\<not> list_ex is_submission (snd (snd (handleTransfer ch s)))"
    unfolding run by (simp add: is_submission_def)
next
  fix pre to a g post
  assume "snd (snd (handleTransfer ch s)) = pre @ App_transfer to a g # post"
  then show "\<exists>estimatedGas. transfer_estimateGas ch to a = Inr estimatedGas \<and>
           g = estimatedGas * 120 div 100 \<and> pre = [App_getSigner, App_estimateGas to a]"
    by (rule submission_position)
next
  assume "or_number (map_option TokenData.decimals (tokenData s)) 18 \<le> 80"
  then show "\<exists>parsed. parseUnits ''0.1'' (or_number (map_option TokenData.decimals (tokenData s)) 18)
                = Inr parsed"
    by (simp add: parseUnits_tenth or_number_pos)
qed

theorem C7_no_blind_submission_witness:
  "handleTransfer estimate_reverting usdc_app =
     (Inr (),
      usdc_app\<lparr>AppState.loading := False,
               AppState.error := Some ''Gas estimation failed. The transaction might revert.'',
               txHash := None\<rparr>,
      [App_getSigner, App_estimateGas recipient 100000]) \<and>
   \<not> list_ex is_submission (snd (snd (handleTransfer estimate_reverting usdc_app)))"
proof -
  have amount: "parseUnits ''0.1''
      (or_number (map_option TokenData.decimals (tokenData usdc_app)) 18) = Inr 100000"
    by (simp add: usdc_app_def or_number_def parseUnits_tenth)
  have reverts: "transfer_estimateGas estimate_reverting recipient 100000 =
      Inl (JsError (Some (StrCode ''CALL_EXCEPTION'')) ''execution reverted'')"
    by (simp add: estimate_reverting_def)
  have ready: "window_ethereum estimate_reverting \<and>
      app_getSigner estimate_reverting = Inr (JsonRpcSigner ''0xAAA'')"
    by (simp add: estimate_reverting_def)
  from C7_no_blind_submission [of estimate_reverting "JsonRpcSigner ''0xAAA''" usdc_app 100000
              "JsError (Some (StrCode ''CALL_EXCEPTION'')) ''execution reverted''"]
       amount reverts ready
  show ?thesis
    by (simp add: transfer_error_message_def is_submission_def)
qed

subsection \<open>The balance display\<close>

text \<open>
  C8, as the code has it. For a raw balance below \<open>2^256\<close>: while the token
  information is not loaded the display is "0.00", whatever the balance; for a token of
  more than 80 decimals, which \<open>formatUnits\<close> refuses, the display is "0.00" as well.
  For a token of at most 80 decimals the display is decided by \<open>num\<close>, the Number
  nearest to \<open>raw / 10^decimals\<close> (what \<open>parseFloat\<close> reads from the formatted
  balance), not by the exact value: the display is "0.00" when the balance is 0;
  "< 0.0001" when the balance is not 0 and \<open>num\<close> is below the Number 0.0001;
  \<open>num.toFixed(4)\<close>, which has exactly 4 fraction digits, when \<open>num\<close> is at least the
  Number 0.0001 and below 1; and the en-US rendering of \<open>num\<close> with grouped integer
  digits and at most 6 fraction digits when \<open>num\<close> is at least 1.
\<close>

theorem C8_balanceDisplay_on_doubles:
  assumes fits: "raw < 2 ^ 256"
  shows
   "displayed_balance None raw = ''0.00'' \<and>
    (80 < TokenInfo.decimals ti \<longrightarrow> displayed_balance (Some ti) raw = ''0.00'') \<and>
    (TokenInfo.decimals ti \<le> 80 \<longrightarrow>
       (raw = 0 \<longrightarrow> displayed_balance (Some ti) raw = ''0.00'') \<and>
       (0 < raw \<and> to_double (real raw / 10 ^ TokenInfo.decimals ti) < to_double (1 / 10000) \<longrightarrow>
          displayed_balance (Some ti) raw = ''< 0.0001'') \<and>
       (to_double (1 / 10000) \<le> to_double (real raw / 10 ^ TokenInfo.decimals ti) \<and>
        to_double (real raw / 10 ^ TokenInfo.decimals ti) < 1 \<longrightarrow>
          displayed_balance (Some ti) raw =
            toFixed (to_double (real raw / 10 ^ TokenInfo.decimals ti)) 4 \<and>
          fraction_digits (displayed_balance (Some ti) raw) = 4) \<and>
       (1 \<le> to_double (real raw / 10 ^ TokenInfo.decimals ti) \<longrightarrow>
          displayed_balance (Some ti) raw =
            toLocaleString_en_US (to_double (real raw / 10 ^ TokenInfo.decimals ti)) 6 \<and>
          fraction_digits (displayed_balance (Some ti) raw) \<le> 6))"
proof (intro conjI impI)
  show "displayed_balance None raw = ''0.00''"
    by (rule display_of_unloaded_token)
next
  assume "80 < TokenInfo.decimals ti"
  then show "displayed_balance (Some ti) raw = ''0.00''"
    by (rule display_of_refused_decimals)
next
  assume small: "TokenInfo.decimals ti \<le> 80"
  define num where "num = to_double (real raw / 10 ^ TokenInfo.decimals ti)"
  note display = display_of_loaded_token [OF small fits, folded num_def]
  have zero: "num = 0 \<longleftrightarrow> raw = 0"
    unfolding num_def by (rule num_zero_iff [OF small])
  have threshold: "0 < to_double (1 / 10000)" "to_double (1 / 10000) < 1"
    by (simp_all add: double_0_0001)
  {
    assume "raw = 0"
    with zero have "num = 0" by simp
    then show "displayed_balance (Some ti) raw = ''0.00''"
      unfolding display by simp
  }
  {
    assume "0 < raw \<and> to_double (real raw / 10 ^ TokenInfo.decimals ti) < to_double (1 / 10000)"
    then show "displayed_balance (Some ti) raw = ''< 0.0001''"
      using zero by (simp add: display num_def [symmetric])
  }
  {
    assume "to_double (1 / 10000) \<le> to_double (real raw / 10 ^ TokenInfo.decimals ti) \<and>
        to_double (real raw / 10 ^ TokenInfo.decimals ti) < 1"
    then have mid: "to_double (1 / 10000) \<le> num \<and> num < 1"
      by (simp add: num_def)
    with threshold have shown: "displayed_balance (Some ti) raw = toFixed num 4"
      by (auto simp: display)
    then show "displayed_balance (Some ti) raw =
            toFixed (to_double (real raw / 10 ^ TokenInfo.decimals ti)) 4"
      by (simp add: num_def)
    from shown show "fraction_digits (displayed_balance (Some ti) raw) = 4"
      by (simp add: toFixed_fraction_digits)
  }
  {
    assume "1 \<le> to_double (real raw / 10 ^ TokenInfo.decimals ti)"
    then have "1 \<le> num"
      by (simp add: num_def)
    with threshold have shown: "displayed_balance (Some ti) raw = toLocaleString_en_US num 6"
      by (auto simp: display)
    then show "displayed_balance (Some ti) raw =
            toLocaleString_en_US (to_double (real raw / 10 ^ TokenInfo.decimals ti)) 6"
      by (simp add: num_def)
    from shown show "fraction_digits (displayed_balance (Some ti) raw) \<le> 6"
      by (simp add: toLocaleString_fraction_digits)
  }
qed

text \<open>
  The claim as stated fails, in three ways. The balance 999999999999999999 of a token
  with 18 decimals has the value 0.999999999999999999, between 0.0001 and 1; the Number
  nearest to it is 1, so the display is "1", with no fraction digit instead of exactly 4.
  While the token information is not loaded the hook reports 18 decimals, and the
  balance 5000000000000000000, whose value is then 5, is displayed as "0.00". The
  balance \<open>10^77\<close> of a token with 81 decimals has the value 0.0001 and is displayed as
  "0.00", with 2 fraction digits.
\<close>

theorem C8_display_not_by_exact_value:
  "((1 :: real) / 10000 \<le> 999999999999999999 / 10 ^ 18 \<and>
    (999999999999999999 :: real) / 10 ^ 18 < 1 \<and>
    displayed_balance (Some (example_token 18)) 999999999999999999 = ''1'' \<and>
    fraction_digits (displayed_balance (Some (example_token 18)) 999999999999999999) = 0) \<and>
   (useERC20Balance_decimals None = 18 \<and>
    (1 :: real) \<le> 5000000000000000000 / 10 ^ 18 \<and>
    displayed_balance None 5000000000000000000 = ''0.00'') \<and>
   ((10 :: nat) ^ 77 < 2 ^ 256 \<and>
    (1 :: real) / 10000 \<le> 10 ^ 77 / 10 ^ 81 \<and> (10 :: real) ^ 77 / 10 ^ 81 < 1 \<and>
    displayed_balance (Some (example_token 81)) (10 ^ 77) = ''0.00'' \<and>
    fraction_digits (displayed_balance (Some (example_token 81)) (10 ^ 77)) = 2)"
proof -
  have one: "displayed_balance (Some (example_token 18)) 999999999999999999 = ''1''"
    by (subst display_of_loaded_token)
       (simp_all add: example_token_def double_just_below_1 double_0_0001 toLocaleString_1)
  have refused: "displayed_balance (Some (example_token 81)) (10 ^ 77) = ''0.00''"
    by (rule display_of_refused_decimals) (simp add: example_token_def)
  show ?thesis
    unfolding one refused display_of_unloaded_token
    by (simp add: fraction_digits_def useERC20Balance_decimals_def or_number_def)
qed

text \<open>
  The seven cases: token information not loaded; 81 decimals; the balance 0; the values
  0.00005, 0.5 and 1234.5; and the value 999.9999995, whose Number is below it and whose
  shortest decimal is 999.9999995, which the formatter rounds up to "1,000".
\<close>

theorem C8_balanceDisplay_on_doubles_witness:
  "displayed_balance None 1500000 = ''0.00'' \<and>
   displayed_balance (Some (example_token 81)) 1500000 = ''0.00'' \<and>
   displayed_balance (Some (example_token 18)) 0 = ''0.00'' \<and>
   displayed_balance (Some (example_token 5)) 5 = ''< 0.0001'' \<and>
   displayed_balance (Some (example_token 1)) 5 = ''0.5000'' \<and>
   displayed_balance (Some (example_token 1)) 12345 = ''1,234.5'' \<and>
   displayed_balance (Some (example_token 7)) 9999999995 = ''1,000''"
proof -
  have d: "\<And>n. TokenInfo.decimals (example_token n) = n"
    by (simp add: example_token_def)
  from C8_balanceDisplay_on_doubles [of 1500000 "example_token 81"]
  have u: "displayed_balance None 1500000 = ''0.00''"
    and r: "displayed_balance (Some (example_token 81)) 1500000 = ''0.00''"
    by (simp_all add: d)
  from C8_balanceDisplay_on_doubles [of 0 "example_token 18"]
  have a: "displayed_balance (Some (example_token 18)) 0 = ''0.00''"
    by (simp add: d)
  from C8_balanceDisplay_on_doubles [of 5 "example_token 5"]
  have b: "displayed_balance (Some (example_token 5)) 5 = ''< 0.0001''"
    by (simp add: d double_0_00005 double_0_0001)
  from C8_balanceDisplay_on_doubles [of 5 "example_token 1"]
  have c: "displayed_balance (Some (example_token 1)) 5 = ''0.5000''"
    by (simp add: d double_half double_0_0001 toFixed_half)
  from C8_balanceDisplay_on_doubles [of 12345 "example_token 1"]
  have e: "displayed_balance (Some (example_token 1)) 12345 = ''1,234.5''"
    by (simp add: d double_1234_5 toLocaleString_1234_5)
  from C8_balanceDisplay_on_doubles [of 9999999995 "example_token 7"]
  have f: "displayed_balance (Some (example_token 7)) 9999999995 = ''1,000''"
    by (simp add: d double_999_9999995 toLocaleString_999_9999995)
  from u r a b c e f show ?thesis by simp
qed

end
